theory Spec2Isabelle
  imports Main "HOL-Library.Multiset"
begin

section \<open>Data model\<close>

text \<open>
  The exceptions the program can meet, as values. \<open>FileNotFoundError\<close> and
  \<open>ValueError\<close> are the two raised by \<open>db_config\<close> itself; the others come from the
  calls it and \<open>fetch_and_save_data\<close> make: \<open>json.load\<close> on text that is not JSON,
  \<open>.keys()\<close> on a JSON value that is not an object, the operating system, and the
  database client (\<open>psycopg2.OperationalError\<close> and every other exception class of
  the client). \<open>JSONDecodeError\<close> is a subclass of \<open>ValueError\<close> in Python; it is kept
  apart here, since the program raises \<open>ValueError\<close> itself only for missing keys.
\<close>

datatype py_error =
    FileNotFoundError string
  | ValueError "string list"
  | JSONDecodeError
  | AttributeError
  | OSError string
  | OperationalError string
  | ProgrammingError string
  | InterfaceError string
  | DatabaseError string
  | OverflowError

text \<open>What \<open>json.load\<close> returns; a JSON object is a Python dict, kept in key order.\<close>

datatype json =
    JNull
  | JBool bool
  | JInt int
  | JReal string
  | JStr string
  | JArr "json list"
  | JObj "(string \<times> json) list"

type_synonym pydict = "(string \<times> json) list"

text \<open>One row of \<open>bitstamp_data\<close>: the three columns the query names, the others verbatim.\<close>

record row =
  row_symbol :: string
  row_timeframe :: string
  row_epoch_open_time :: int
  row_extra :: "string list"

text \<open>\<open>pd.DataFrame(rows, columns=column_names)\<close>.\<close>

record dataframe =
  columns :: "string list"
  data :: "row list"

text \<open>
  The file system, keyed by the path text: a directory, or a regular file whose content
  is text that parses as JSON, a pickled table, or anything else (\<open>Junk\<close>: also a file
  opened for writing and not yet written).
\<close>

datatype content = Json json | Pickle dataframe | Junk

datatype node = Dir | File content

text \<open>The calls of the \<open>logging\<close> module, in order.\<close>

datatype log_entry =
    LogDebug string
  | LogInfo string
  | LogWarning string
  | LogError string py_error

text \<open>The calls made on the database client, in order.\<close>

datatype db_call = Connect pydict | Execute string | Commit | Rollback | Close

text \<open>The operating-system calls that can fail for reasons outside the program.\<close>

datatype os_op = OpenRead string | Makedirs string | OpenWrite string | Dump string

record datetime =
  year :: nat
  month :: nat
  day :: nat
  hour :: nat
  minute :: nat
  second :: nat
  microsecond :: nat

text \<open>
  The surroundings of one invocation, which the program does not change:
  which operating-system calls fail (permission denied, disk full, ...), how many of
  its directories a failing \<open>os.makedirs\<close> has made by then, what
  \<open>psycopg2.connect\<close> and \<open>cursor.execute\<close>/\<open>fetchall\<close>/\<open>description\<close> answer, and the
  library's \<open>datetime.utcfromtimestamp(ns / 1_000_000_000)\<close>, a floating-point
  computation taken as given. A failing \<open>execute\<close> comes with the state it leaves the
  connection in: \<open>True\<close> when the failure was the loss of the connection, which the
  client records by marking the connection closed.
\<close>

record env =
  os_fault :: "os_op \<Rightarrow> py_error option"
  makedirs_reach :: "string \<Rightarrow> nat"
  pg_connect :: "pydict \<Rightarrow> py_error option"
  pg_execute :: "string \<Rightarrow> (py_error \<times> bool) + (row list \<times> string list)"
  utcfromtimestamp :: "int \<Rightarrow> py_error + datetime"

text \<open>What the program changes: files and directories, the log, the database calls.\<close>

record world =
  fs :: "string \<Rightarrow> node option"
  log :: "log_entry list"
  db_calls :: "db_call list"

definition logging :: "log_entry \<Rightarrow> world \<Rightarrow> world" where
  "logging e w = w\<lparr>log := log w @ [e]\<rparr>"

definition db_call :: "db_call \<Rightarrow> world \<Rightarrow> world" where
  "db_call c w = w\<lparr>db_calls := db_calls w @ [c]\<rparr>"

section \<open>Configuration\<close>

text \<open>
  \<open>os.path.exists\<close>: whether the path names something the process can see. A path
  it is not allowed to look up counts as absent, here as in Python.
\<close>

definition path_exists :: "world \<Rightarrow> string \<Rightarrow> bool" where
  "path_exists w p = (fs w p \<noteq> None)"

definition open_read :: "env \<Rightarrow> world \<Rightarrow> string \<Rightarrow> py_error + content" where
  "open_read ev w p =
     (case os_fault ev (OpenRead p) of
        Some e \<Rightarrow> Inl e
      | None \<Rightarrow>
          (case fs w p of
             None \<Rightarrow> Inl (FileNotFoundError p)
           | Some Dir \<Rightarrow> Inl (OSError ''IsADirectoryError'')
           | Some (File c) \<Rightarrow> Inr c))"

definition json_load :: "content \<Rightarrow> py_error + json" where
  "json_load c = (case c of Json j \<Rightarrow> Inr j | _ \<Rightarrow> Inl JSONDecodeError)"

text \<open>\<open>params.keys()\<close>: only a dict has it.\<close>

definition keys :: "json \<Rightarrow> py_error + string list" where
  "keys j = (case j of JObj kvs \<Rightarrow> Inr (map fst kvs) | _ \<Rightarrow> Inl AttributeError)"

definition required_keys :: "string list" where
  "required_keys = [''host'', ''port'', ''dbname'', ''user'', ''password'']"

text \<open>
  \<open>db_config\<close>: the existence test, \<open>open\<close>, \<open>json.load\<close>, the test of the required
  keys, and \<open>return params\<close>. It calls nothing that writes, logs or touches the
  database, so the world it returns is the one it was given.
\<close>

definition db_config :: "env \<Rightarrow> string \<Rightarrow> world \<Rightarrow> (py_error + pydict) \<times> world" where
  "db_config ev config_file w =
     (if \<not> path_exists w config_file then (Inl (FileNotFoundError config_file), w)
      else
        case open_read ev w config_file of
          Inl e \<Rightarrow> (Inl e, w)
        | Inr c \<Rightarrow>
            (case json_load c of
               Inl e \<Rightarrow> (Inl e, w)
             | Inr params \<Rightarrow>
                 (case keys params of
                    Inl e \<Rightarrow> (Inl e, w)
                  | Inr ks \<Rightarrow>
                      (let missing = filter (\<lambda>k. k \<notin> set ks) required_keys
                       in if missing \<noteq> [] then (Inl (ValueError missing), w)
                          else (Inr (case params of JObj kvs \<Rightarrow> kvs | _ \<Rightarrow> []), w)))))"

section \<open>Text of numbers, paths and timestamps\<close>

definition digit_char :: "nat \<Rightarrow> char" where
  "digit_char d = ''0123456789'' ! d"

text \<open>\<open>str\<close> of a Python integer, as an f-string renders it: decimal, \<open>-\<close> when negative.\<close>

fun str_nat :: "nat \<Rightarrow> string" where
  "str_nat n = (if n < 10 then [digit_char n] else str_nat (n div 10) @ [digit_char (n mod 10)])"

declare str_nat.simps [simp del]

definition str_int :: "int \<Rightarrow> string" where
  "str_int i = (if i < 0 then CHR ''-'' # str_nat (nat (- i)) else str_nat (nat i))"

definition sep :: char where
  "sep = CHR ''/''"

text \<open>
  \<open>os.path.join\<close> of \<open>posixpath\<close>: a component that starts with the separator
  replaces what came before; otherwise it is appended, after a separator unless the
  path so far is empty or ends with one.
\<close>

definition join2 :: "string \<Rightarrow> string \<Rightarrow> string" where
  "join2 path b =
     (if b \<noteq> [] \<and> hd b = sep then b
      else if path = [] \<or> last path = sep then path @ b
      else path @ [sep] @ b)"

definition os_path_join :: "string \<Rightarrow> string list \<Rightarrow> string" where
  "os_path_join a ps = foldl join2 a ps"

definition zfill :: "nat \<Rightarrow> string \<Rightarrow> string" where
  "zfill n s = replicate (n - length s) CHR ''0'' @ s"

text \<open>
  \<open>dt.strftime("%Y-%m-%d_%H-%M-%S")\<close>: the fields of \<open>dt\<close> as they are. The two-digit
  fields are zero-padded; \<open>%Y\<close> is the year in decimal, which the C library of Linux
  does not pad (year 999 gives \<open>999\<close>), so that four digits need a year from 1000 on.
\<close>

definition strftime :: "datetime \<Rightarrow> string" where
  "strftime dt =
     str_nat (year dt) @ ''-'' @ zfill 2 (str_nat (month dt)) @ ''-'' @
     zfill 2 (str_nat (day dt)) @ ''_'' @ zfill 2 (str_nat (hour dt)) @ ''-'' @
     zfill 2 (str_nat (minute dt)) @ ''-'' @ zfill 2 (str_nat (second dt))"

section \<open>Saving\<close>

text \<open>The directories \<open>os.makedirs\<close> visits: the path cut before each separator, and the path.\<close>

definition path_prefixes :: "string \<Rightarrow> string list" where
  "path_prefixes p =
     map (\<lambda>i. take i p) (filter (\<lambda>i. p ! i = sep \<and> p ! (i - 1) \<noteq> sep) [1..<length p]) @ [p]"

definition is_file :: "node option \<Rightarrow> bool" where
  "is_file n = (case n of Some (File c) \<Rightarrow> True | _ \<Rightarrow> False)"

text \<open>
  \<open>os.makedirs(folder_path, exist_ok=True)\<close>: the directories are made from the
  outermost on, those that exist are left alone. A file where the folder should be is
  \<open>FileExistsError\<close>, a file on the way to it \<open>NotADirectoryError\<close>. A call that the
  operating system fails leaves the directories it had made.
\<close>

definition makedirs :: "env \<Rightarrow> string \<Rightarrow> world \<Rightarrow> (py_error \<times> world) + world" where
  "makedirs ev p w =
     (case os_fault ev (Makedirs p) of
        Some e \<Rightarrow>
          Inl (e, w\<lparr>fs := (\<lambda>q. if q \<in> set (take (makedirs_reach ev p) (path_prefixes p)) \<and> fs w q = None
                                then Some Dir else fs w q)\<rparr>)
      | None \<Rightarrow>
          if p = [] then Inl (FileNotFoundError p, w)
          else if is_file (fs w p) then Inl (OSError ''FileExistsError'', w)
          else if list_ex (\<lambda>q. is_file (fs w q)) (path_prefixes p)
          then Inl (OSError ''NotADirectoryError'', w)
          else Inr (w\<lparr>fs := (\<lambda>q. if q \<in> set (path_prefixes p) then Some Dir else fs w q)\<rparr>))"

text \<open>\<open>open(file_path, "wb")\<close>: creates the file, or empties the one that is there.\<close>

definition open_write :: "env \<Rightarrow> string \<Rightarrow> world \<Rightarrow> py_error + world" where
  "open_write ev p w =
     (case os_fault ev (OpenWrite p) of
        Some e \<Rightarrow> Inl e
      | None \<Rightarrow>
          if fs w p = Some Dir then Inl (OSError ''IsADirectoryError'')
          else Inr (w\<lparr>fs := (fs w)(p \<mapsto> File Junk)\<rparr>))"

text \<open>\<open>pickle.dump(df, f)\<close> on the file just opened.\<close>

definition pickle_dump :: "env \<Rightarrow> string \<Rightarrow> dataframe \<Rightarrow> world \<Rightarrow> py_error + world" where
  "pickle_dump ev p df w =
     (case os_fault ev (Dump p) of
        Some e \<Rightarrow> Inl e
      | None \<Rightarrow> Inr (w\<lparr>fs := (fs w)(p \<mapsto> File (Pickle df))\<rparr>))"

definition folder_path :: "string \<Rightarrow> string \<Rightarrow> string \<Rightarrow> string \<Rightarrow> string" where
  "folder_path data_root symbol broker timeframe = os_path_join data_root [symbol, broker, timeframe]"

definition file_name :: "datetime \<Rightarrow> datetime \<Rightarrow> string" where
  "file_name start_dt end_dt = strftime start_dt @ ''_'' @ strftime end_dt @ ''.pkl''"

definition file_path ::
  "string \<Rightarrow> string \<Rightarrow> string \<Rightarrow> string \<Rightarrow> datetime \<Rightarrow> datetime \<Rightarrow> string" where
  "file_path data_root symbol broker timeframe start_dt end_dt =
     os_path_join (folder_path data_root symbol broker timeframe) [file_name start_dt end_dt]"

text \<open>
  \<open>save_data_to_nested_folders\<close>: nothing is caught, so the first call that fails ends
  it with that error, leaving what the calls before it did.
\<close>

definition save_data_to_nested_folders ::
  "env \<Rightarrow> dataframe \<Rightarrow> string \<Rightarrow> string \<Rightarrow> string \<Rightarrow> string \<Rightarrow> datetime \<Rightarrow> datetime \<Rightarrow> world
     \<Rightarrow> (py_error + string) \<times> world" where
  "save_data_to_nested_folders ev df data_root symbol broker timeframe start_dt end_dt w =
     (case makedirs ev (folder_path data_root symbol broker timeframe) w of
        Inl (e, w1) \<Rightarrow> (Inl e, w1)
      | Inr w1 \<Rightarrow>
          (let p = file_path data_root symbol broker timeframe start_dt end_dt
           in case open_write ev p w1 of
                Inl e \<Rightarrow> (Inl e, w1)
              | Inr w2 \<Rightarrow>
                  (case pickle_dump ev p df w2 of
                     Inl e \<Rightarrow> (Inl e, w2)
                   | Inr w3 \<Rightarrow> (Inr p, logging (LogInfo (''DataFrame saved: '' @ p)) w3))))"

section \<open>Query and orchestration\<close>

definition quote :: char where
  "quote = CHR 0x27"

definition nl :: char where
  "nl = CHR 0x0A"

text \<open>The f-string of \<open>fetch_and_save_data\<close>, piece by piece.\<close>

definition query_head :: string where
  "query_head = nl # ''        SELECT *'' @ nl # ''        FROM bitstamp_data'' @ nl #
     ''        WHERE symbol = ''"

definition query_timeframe :: string where
  "query_timeframe = nl # ''          AND timeframe = ''"

definition query_from :: string where
  "query_from = nl # ''          AND epoch_open_time >= ''"

definition query_until :: string where
  "query_until = nl # ''          AND epoch_open_time < ''"

definition query_tail :: string where
  "query_tail = nl # ''        ORDER BY epoch_open_time ASC'' @ nl # ''    ''"

definition query_text :: "string \<Rightarrow> string \<Rightarrow> int \<Rightarrow> int \<Rightarrow> string" where
  "query_text symbol timeframe start_ns end_ns =
     query_head @ quote # symbol @ quote # query_timeframe @ quote # timeframe @ quote #
     query_from @ str_int start_ns @ query_until @ str_int end_ns @ query_tail"

text \<open>
  \<open>query_postgres_db\<close>: any exception of \<open>execute\<close> or \<open>fetchall\<close> is logged and
  answered with the empty list.
\<close>

definition query_postgres_db :: "env \<Rightarrow> string \<Rightarrow> bool \<Rightarrow> world \<Rightarrow> row list \<times> world" where
  "query_postgres_db ev query debug w =
     (let w1 = (if debug then logging (LogDebug (''Executing SQL command: '' @ query)) w else w);
          w2 = db_call (Execute query) w1
      in case pg_execute ev query of
           Inl (e, closed) \<Rightarrow> ([], logging (LogError ''Error executing query: '' e) w2)
         | Inr (rows, cols) \<Rightarrow> (rows, w2))"

text \<open>\<open>[desc[0] for desc in cur.description]\<close>, read only after rows have come back.\<close>

definition column_names :: "env \<Rightarrow> string \<Rightarrow> string list" where
  "column_names ev query = (case pg_execute ev query of Inr (rows, cols) \<Rightarrow> cols | Inl e \<Rightarrow> [])"

text \<open>
  \<open>conn.closed\<close> after \<open>cursor.execute\<close>: set when the statement failed because the
  connection was lost.
\<close>

definition connection_closed :: "env \<Rightarrow> string \<Rightarrow> bool" where
  "connection_closed ev query = (case pg_execute ev query of Inl (e, closed) \<Rightarrow> closed | Inr r \<Rightarrow> False)"

text \<open>
  Leaving the block \<open>with conn:\<close>. The client commits when the block ended normally and
  rolls back when an exception passes through it; on a connection marked closed either
  call raises \<open>InterfaceError\<close>, which then is the exception that leaves the block.
\<close>

definition leave_with_conn :: "bool \<Rightarrow> (py_error + 'a) \<times> world \<Rightarrow> (py_error + 'a) \<times> world" where
  "leave_with_conn closed r =
     (case r of
        (Inl e, w) \<Rightarrow>
          if closed then (Inl (InterfaceError ''connection already closed''), db_call Rollback w)
          else (Inl e, db_call Rollback w)
      | (Inr v, w) \<Rightarrow>
          if closed then (Inl (InterfaceError ''connection already closed''), db_call Commit w)
          else (Inr v, db_call Commit w))"

text \<open>
  \<open>fetch_and_save_data\<close>. \<open>Inr None\<close> is \<open>return None\<close>, \<open>Inr (Some df)\<close> is
  \<open>return df\<close>, \<open>Inl e\<close> is an exception that leaves the function. Nothing inside the
  \<open>with\<close> blocks is caught, and \<open>conn.close()\<close> is reached only when no exception left
  them. \<open>conn.cursor()\<close> is called on the connection just opened, and \<open>conn.close()\<close>
  on a connection that is open (on a closed one the commit before it has raised), so
  neither is given a way to fail.
\<close>

definition fetch_and_save_data ::
  "env \<Rightarrow> string \<Rightarrow> string \<Rightarrow> string \<Rightarrow> int \<Rightarrow> int \<Rightarrow> string \<Rightarrow> string \<Rightarrow> bool \<Rightarrow> world
     \<Rightarrow> (py_error + dataframe option) \<times> world" where
  "fetch_and_save_data ev symbol broker timeframe start_ns end_ns data_root db_config_file debug w =
     (case db_config ev db_config_file w of
        (Inl e, w1) \<Rightarrow> (Inr None, logging (LogError ''Failed to load DB config: '' e) w1)
      | (Inr params, w1) \<Rightarrow>
          (let w2 = db_call (Connect params) w1
           in case pg_connect ev params of
                Some e \<Rightarrow>
                  (case e of
                     OperationalError m \<Rightarrow>
                       (Inr None, logging (LogError ''Failed to connect to PostgreSQL: '' e) w2)
                   | _ \<Rightarrow> (Inl e, w2))
              | None \<Rightarrow>
                  (let query = query_text symbol timeframe start_ns end_ns
                   in case leave_with_conn (connection_closed ev query)
                        (case query_postgres_db ev query debug w2 of
                           (rows, w3) \<Rightarrow>
                             if rows = [] then
                               (Inr None, logging (LogWarning ''No data returned from the query.'') w3)
                             else
                               (let df = \<lparr>columns = column_names ev query, data = rows\<rparr>;
                                    w4 = logging (LogInfo (''Fetched '' @ str_nat (length rows) @
                                           '' rows for '' @ symbol @ ''-'' @ timeframe @ ''.'')) w3
                                in case utcfromtimestamp ev start_ns of
                                     Inl e \<Rightarrow> (Inl e, w4)
                                   | Inr start_dt \<Rightarrow>
                                       (case utcfromtimestamp ev end_ns of
                                          Inl e \<Rightarrow> (Inl e, w4)
                                        | Inr end_dt \<Rightarrow>
                                            (case save_data_to_nested_folders ev df data_root symbol
                                                    broker timeframe start_dt end_dt w4 of
                                               (Inl e, w5) \<Rightarrow> (Inl e, w5)
                                             | (Inr p, w5) \<Rightarrow> (Inr (Some df), w5))))) of
                        (Inl e, w6) \<Rightarrow> (Inl e, w6)
                      | (Inr df, w6) \<Rightarrow> (Inr df, db_call Close w6))))"

section \<open>The data source\<close>

text \<open>
  What is behind the connection, as the program's surroundings: named tables of rows,
  and a reader of SQL text. The text is cut into tokens by the lexical rules of SQL (a
  string literal runs from its opening quote to the next quote that is not doubled, a
  doubled quote standing for one quote character), the tokens are parsed as
  \<open>SELECT * FROM table WHERE condition [ORDER BY column [ASC | DESC]]\<close>, the condition
  being comparisons of a column with a literal joined by \<open>AND\<close> and \<open>OR\<close> (\<open>AND\<close> binds
  tighter), and the statement is run against the tables. Comparing or sorting text by
  order depends on the collation and is left out: such a statement, like any text the
  reader cannot parse, is answered with an error.
\<close>

definition is_digit :: "char \<Rightarrow> bool" where
  "is_digit c = (c \<in> set ''0123456789'')"

definition digit_val :: "char \<Rightarrow> nat" where
  "digit_val c = of_char c - 48"

definition is_space :: "char \<Rightarrow> bool" where
  "is_space c = (c = CHR '' '' \<or> c = nl \<or> c = CHR 0x09 \<or> c = CHR 0x0D)"

definition is_letter :: "char \<Rightarrow> bool" where
  "is_letter c =
     (let n = (of_char c :: nat) in (65 \<le> n \<and> n \<le> 90) \<or> (97 \<le> n \<and> n \<le> 122) \<or> n = 95)"

definition is_symbol :: "char \<Rightarrow> bool" where
  "is_symbol c = (c \<in> set ''=<>!*-+'')"

definition two_char_ops :: "string list" where
  "two_char_ops = [''>='', ''<='', ''<>'', ''!='']"

datatype token = Word string | Str string | Num nat | Sym string

datatype lex_state =
    Idle
  | InWord string
  | InNum nat
  | InStr string
  | InStrQuote string
  | InSym char

text \<open>The state after a character that begins a token, or separates two.\<close>

definition start :: "char \<Rightarrow> lex_state option" where
  "start c =
     (if is_digit c then Some (InNum (digit_val c))
      else if is_space c then Some Idle
      else if c = quote then Some (InStr [])
      else if is_letter c then Some (InWord [c])
      else if is_symbol c then Some (InSym c)
      else None)"

fun lex :: "lex_state \<Rightarrow> string \<Rightarrow> token list option" where
  "lex st [] =
     (case st of
        Idle \<Rightarrow> Some []
      | InWord a \<Rightarrow> Some [Word a]
      | InNum n \<Rightarrow> Some [Num n]
      | InStr a \<Rightarrow> None
      | InStrQuote a \<Rightarrow> Some [Str a]
      | InSym a \<Rightarrow> Some [Sym [a]])"
| "lex st (c # cs) =
     (case st of
        Idle \<Rightarrow> (case start c of None \<Rightarrow> None | Some st' \<Rightarrow> lex st' cs)
      | InWord a \<Rightarrow>
          if is_letter c \<or> is_digit c then lex (InWord (a @ [c])) cs
          else (case start c of None \<Rightarrow> None | Some st' \<Rightarrow> map_option ((#) (Word a)) (lex st' cs))
      | InNum n \<Rightarrow>
          if is_digit c then lex (InNum (10 * n + digit_val c)) cs
          else (case start c of None \<Rightarrow> None | Some st' \<Rightarrow> map_option ((#) (Num n)) (lex st' cs))
      | InStr a \<Rightarrow>
          if c = quote then lex (InStrQuote a) cs else lex (InStr (a @ [c])) cs
      | InStrQuote a \<Rightarrow>
          if c = quote then lex (InStr (a @ [quote])) cs
          else (case start c of None \<Rightarrow> None | Some st' \<Rightarrow> map_option ((#) (Str a)) (lex st' cs))
      | InSym a \<Rightarrow>
          if [a, c] \<in> set two_char_ops then map_option ((#) (Sym [a, c])) (lex Idle cs)
          else (case start c of None \<Rightarrow> None | Some st' \<Rightarrow> map_option ((#) (Sym [a])) (lex st' cs)))"

datatype comparison = Eq | Ne | Lt | Le | Gt | Ge

datatype literal = Text string | Number int

type_synonym atom = "string \<times> comparison \<times> literal"

record statement =
  from_table :: string
  where_clause :: "atom list list"
  order_by :: "(string \<times> bool) option"

definition comparison_of :: "string \<Rightarrow> comparison option" where
  "comparison_of s =
     (if s = ''='' then Some Eq
      else if s = ''<>'' \<or> s = ''!='' then Some Ne
      else if s = ''<'' then Some Lt
      else if s = ''<='' then Some Le
      else if s = ''>'' then Some Gt
      else if s = ''>='' then Some Ge
      else None)"

definition parse_literal :: "token list \<Rightarrow> literal option" where
  "parse_literal ts =
     (case ts of
        [Str s] \<Rightarrow> Some (Text s)
      | [Num n] \<Rightarrow> Some (Number (int n))
      | [Sym m, Num n] \<Rightarrow> if m = ''-'' then Some (Number (- int n)) else None
      | _ \<Rightarrow> None)"

definition parse_atom :: "token list \<Rightarrow> atom option" where
  "parse_atom ts =
     (case ts of
        Word col # Sym opr # lit \<Rightarrow>
          (case comparison_of opr of
             None \<Rightarrow> None
           | Some c \<Rightarrow> (case parse_literal lit of None \<Rightarrow> None | Some l \<Rightarrow> Some (col, c, l)))
      | _ \<Rightarrow> None)"

fun split_on :: "token \<Rightarrow> token list \<Rightarrow> token list list" where
  "split_on t [] = [[]]"
| "split_on t (x # xs) =
     (if x = t then [] # split_on t xs
      else (case split_on t xs of [] \<Rightarrow> [[x]] | g # gs \<Rightarrow> (x # g) # gs))"

text \<open>A disjunction of conjunctions of comparisons.\<close>

definition parse_where :: "token list \<Rightarrow> atom list list option" where
  "parse_where ts =
     those (map (\<lambda>conj. those (map parse_atom (split_on (Word ''AND'') conj)))
              (split_on (Word ''OR'') ts))"

text \<open>The column to sort by, and whether the order is descending.\<close>

definition parse_order :: "token list \<Rightarrow> (string \<times> bool) option option" where
  "parse_order ts =
     (if ts = [] then Some None
      else if take 2 ts = [Word ''ORDER'', Word ''BY''] then
        (case drop 2 ts of
           [Word c] \<Rightarrow> Some (Some (c, False))
         | [Word c, d] \<Rightarrow>
             if d = Word ''ASC'' then Some (Some (c, False))
             else if d = Word ''DESC'' then Some (Some (c, True))
             else None
         | _ \<Rightarrow> None)
      else None)"

definition parse_select :: "token list \<Rightarrow> statement option" where
  "parse_select ts =
     (if take 3 ts = [Word ''SELECT'', Sym ''*'', Word ''FROM''] then
        (case drop 3 ts of
           Word t # w # rest \<Rightarrow>
             if w = Word ''WHERE'' then
               (case parse_where (takeWhile (\<lambda>x. x \<noteq> Word ''ORDER'') rest) of
                  None \<Rightarrow> None
                | Some cond \<Rightarrow>
                    (case parse_order (dropWhile (\<lambda>x. x \<noteq> Word ''ORDER'') rest) of
                       None \<Rightarrow> None
                     | Some ob \<Rightarrow> Some \<lparr>from_table = t, where_clause = cond, order_by = ob\<rparr>))
             else None
         | _ \<Rightarrow> None)
      else None)"

text \<open>
  The columns of a row that a statement can name: \<open>symbol\<close> and \<open>timeframe\<close> hold text,
  compared for equality; \<open>epoch_open_time\<close> holds an integer.
\<close>

definition atom_typed :: "atom \<Rightarrow> bool" where
  "atom_typed a =
     (case a of
        (col, c, Text s) \<Rightarrow> (col = ''symbol'' \<or> col = ''timeframe'') \<and> (c = Eq \<or> c = Ne)
      | (col, c, Number n) \<Rightarrow> col = ''epoch_open_time'')"

definition compare_int :: "comparison \<Rightarrow> int \<Rightarrow> int \<Rightarrow> bool" where
  "compare_int c a b =
     (case c of Eq \<Rightarrow> a = b | Ne \<Rightarrow> a \<noteq> b | Lt \<Rightarrow> a < b | Le \<Rightarrow> a \<le> b | Gt \<Rightarrow> a > b | Ge \<Rightarrow> a \<ge> b)"

definition atom_holds :: "atom \<Rightarrow> row \<Rightarrow> bool" where
  "atom_holds a r =
     (case a of
        (col, c, Text s) \<Rightarrow>
          (let v = (if col = ''symbol'' then row_symbol r else row_timeframe r)
           in if c = Eq then v = s else v \<noteq> s)
      | (col, c, Number n) \<Rightarrow> compare_int c (row_epoch_open_time r) n)"

definition where_holds :: "atom list list \<Rightarrow> row \<Rightarrow> bool" where
  "where_holds cond r = list_ex (list_all (\<lambda>a. atom_holds a r)) cond"

type_synonym database = "string \<Rightarrow> (string list \<times> row list) option"

definition run_select ::
  "database \<Rightarrow> statement \<Rightarrow> (py_error \<times> bool) + (row list \<times> string list)" where
  "run_select db st =
     (case db (from_table st) of
        None \<Rightarrow> Inl (ProgrammingError ''relation does not exist'', False)
      | Some (labels, table) \<Rightarrow>
          if \<not> list_all (list_all atom_typed) (where_clause st)
          then Inl (ProgrammingError ''column or operator outside the reading'', False)
          else
            (let found = filter (where_holds (where_clause st)) table
             in case order_by st of
                  None \<Rightarrow> Inr (found, labels)
                | Some (col, descending) \<Rightarrow>
                    if col \<noteq> ''epoch_open_time''
                    then Inl (ProgrammingError ''sort column outside the reading'', False)
                    else Inr (if descending then rev (sort_key row_epoch_open_time found)
                              else sort_key row_epoch_open_time found, labels)))"

definition data_source :: "database \<Rightarrow> string \<Rightarrow> (py_error \<times> bool) + (row list \<times> string list)" where
  "data_source db q =
     (case lex Idle q of
        None \<Rightarrow> Inl (ProgrammingError ''syntax error'', False)
      | Some ts \<Rightarrow>
          (case parse_select ts of
             None \<Rightarrow> Inl (ProgrammingError ''syntax error'', False)
           | Some st \<Rightarrow> run_select db st))"

section \<open>Shapes of inputs, and a sample installation\<close>





definition example_config :: pydict where
  "example_config =
     [(''host'', JStr ''localhost''), (''port'', JInt 5432), (''dbname'', JStr ''market''),
      (''user'', JStr ''reader''), (''password'', JStr ''secret'')]"

definition example_labels :: "string list" where
  "example_labels = [''symbol'', ''timeframe'', ''epoch_open_time'', ''close'']"

definition example_row :: "string \<Rightarrow> int \<Rightarrow> string \<Rightarrow> row" where
  "example_row s t c = \<lparr>row_symbol = s, row_timeframe = ''1m'', row_epoch_open_time = t, row_extra = [c]\<rparr>"

definition example_table :: "row list" where
  "example_table =
     [example_row ''BTCUSD'' 1531553520000000000 ''6231.5'',
      example_row ''BTCUSD'' 1531553400000000000 ''6230.0'',
      example_row ''ETHUSD'' 1531553460000000000 ''433.1'',
      example_row ''BTCUSD'' 1531553460000000000 ''6230.9'',
      example_row ''BTCUSD'' 1531554000000000000 ''6240.0'']"

definition example_database :: database where
  "example_database = [''bitstamp_data'' \<mapsto> (example_labels, example_table)]"

definition example_start :: datetime where
  "example_start = \<lparr>year = 2018, month = 7, day = 14, hour = 7, minute = 30, second = 0, microsecond = 0\<rparr>"

definition example_end :: datetime where
  "example_end = \<lparr>year = 2018, month = 7, day = 14, hour = 7, minute = 40, second = 0, microsecond = 0\<rparr>"

definition example_clock :: "int \<Rightarrow> py_error + datetime" where
  "example_clock ns =
     (if ns = 1531553400000000000 then Inr example_start
      else if ns = 1531554000000000000 then Inr example_end
      else Inl OverflowError)"

definition example_env :: env where
  "example_env =
     \<lparr>os_fault = (\<lambda>c. None), makedirs_reach = (\<lambda>p. 0), pg_connect = (\<lambda>params. None),
      pg_execute = data_source example_database,
      utcfromtimestamp = example_clock\<rparr>"

definition example_world :: world where
  "example_world =
     \<lparr>fs = [''config/db_config.json'' \<mapsto> File (Json (JObj example_config))],
      log = [], db_calls = []\<rparr>"

lemmas example_defs = example_env_def example_world_def example_config_def example_labels_def
  example_table_def example_row_def example_clock_def example_start_def example_end_def
  example_database_def

definition example_no_password :: world where
  "example_no_password =
     example_world\<lparr>fs := [''config/db_config.json'' \<mapsto> File (Json (JObj (butlast example_config)))]\<rparr>"

definition example_unreachable :: env where
  "example_unreachable = example_env\<lparr>pg_connect := (\<lambda>params. Some (OperationalError ''connection refused''))\<rparr>"

definition example_empty :: env where
  "example_empty = example_env\<lparr>pg_execute := (\<lambda>q. Inr ([], example_labels))\<rparr>"

definition quoted_symbol :: string where
  "quoted_symbol = ''BTC'' @ [quote, quote] @ ''USD''"

definition quoted_table :: "row list" where
  "quoted_table = [example_row (''BTC'' @ [quote] @ ''USD'') 15 ''1.0'']"

definition quoted_database :: database where
  "quoted_database = [''bitstamp_data'' \<mapsto> (example_labels, quoted_table)]"

definition example_config_extra :: pydict where
  "example_config_extra = example_config @ [(''sslmode'', JStr ''require'')]"

definition example_world_extra :: world where
  "example_world_extra =
     example_world\<lparr>fs := [''config/db_config.json'' \<mapsto> File (Json (JObj example_config_extra))]\<rparr>"

definition example_dropped :: env where
  "example_dropped =
     example_env\<lparr>pg_execute :=
       (\<lambda>q. Inl (OperationalError ''server closed the connection unexpectedly'', True))\<rparr>"

definition example_config_unknown :: pydict where
  "example_config_unknown = example_config @ [(''colour'', JStr ''blue'')]"

definition example_world_unknown :: world where
  "example_world_unknown =
     example_world\<lparr>fs := [''config/db_config.json'' \<mapsto> File (Json (JObj example_config_unknown))]\<rparr>"

definition example_bad_option :: env where
  "example_bad_option =
     example_env\<lparr>pg_connect :=
       (\<lambda>params. if ''colour'' \<in> set (map fst params)
                 then Some (ProgrammingError ''invalid connection option'') else None)\<rparr>"

definition injected_symbol :: string where
  "injected_symbol = ''ETHUSD'' @ [quote] @ '' OR symbol <> '' @ [quote] @ ''ETHUSD''"

definition example_world_array :: world where
  "example_world_array =
     example_world\<lparr>fs := [''config/db_config.json'' \<mapsto> File (Json (JArr []))]\<rparr>"



definition example_frame :: dataframe where
  "example_frame =
     \<lparr>columns = example_labels,
      data = [example_row ''BTCUSD'' 1531553400000000000 ''6230.0'',
              example_row ''BTCUSD'' 1531553460000000000 ''6230.9'',
              example_row ''BTCUSD'' 1531553520000000000 ''6231.5'']\<rparr>"

definition example_readonly :: env where
  "example_readonly =
     example_env\<lparr>os_fault := (\<lambda>c. case c of OpenWrite p \<Rightarrow> Some (OSError ''PermissionError'') | _ \<Rightarrow> None)\<rparr>"

section \<open>Reading the query text\<close>

text \<open>
  How the reader of the data source cuts the text of \<open>query_text\<close> into tokens: a
  decimal number is read back as the number it was written from, and a text without a
  quote, between quotes, as itself.
\<close>

lemmas lex_classes = start_def is_digit_def is_space_def is_letter_def is_symbol_def two_char_ops_def
  digit_val_def quote_def nl_def

lemma digit_char_is_digit: "d < 10 \<Longrightarrow> is_digit (digit_char d)"
proof -
  assume "d < 10"
  then have "d \<in> {0,1,2,3,4,5,6,7,8,9}" by auto
  then show ?thesis by (auto simp: is_digit_def digit_char_def)
qed

lemma digit_val_digit_char: "d < 10 \<Longrightarrow> digit_val (digit_char d) = d"
proof -
  assume "d < 10"
  then have "d \<in> {0,1,2,3,4,5,6,7,8,9}" by auto
  then show ?thesis by (auto simp: digit_val_def digit_char_def)
qed

lemma str_nat_digits: "\<forall>c \<in> set (str_nat n). is_digit c"
proof (induction n rule: str_nat.induct)
  case (1 n)
  show ?case
  proof (cases "n < 10")
    case True
    then show ?thesis by (subst str_nat.simps) (simp add: digit_char_is_digit)
  next
    case False
    with 1 show ?thesis by (subst str_nat.simps) (simp add: digit_char_is_digit)
  qed
qed

lemma str_nat_nonempty: "str_nat n \<noteq> []"
  by (subst str_nat.simps) simp

lemma str_nat_value: "foldl (\<lambda>a c. 10 * a + digit_val c) 0 (str_nat n) = n"
proof (induction n rule: str_nat.induct)
  case (1 n)
  show ?case
  proof (cases "n < 10")
    case True
    then show ?thesis by (subst str_nat.simps) (simp add: digit_val_digit_char)
  next
    case False
    with 1 show ?thesis by (subst str_nat.simps) (simp add: digit_val_digit_char)
  qed
qed

lemma lex_string_body:
  "quote \<notin> set s \<Longrightarrow> lex (InStr a) (s @ quote # r) = lex (InStrQuote (a @ s)) r"
  by (induction s arbitrary: a) auto

lemma start_digit: "is_digit c \<Longrightarrow> start c = Some (InNum (digit_val c))"
  by (simp add: start_def)

lemma lex_digits:
  "\<forall>c \<in> set ds. is_digit c \<Longrightarrow>
   lex (InNum n) (ds @ r) = lex (InNum (foldl (\<lambda>a c. 10 * a + digit_val c) n ds)) r"
  by (induction ds arbitrary: n) auto

lemma lex_number: "lex Idle (str_nat n @ r) = lex (InNum n) r"
proof -
  obtain d ds where s: "str_nat n = d # ds"
    using str_nat_nonempty[of n] by (cases "str_nat n") auto
  have dig: "is_digit d" "\<forall>c \<in> set ds. is_digit c" using str_nat_digits[of n] s by auto
  have v: "foldl (\<lambda>a c. 10 * a + digit_val c) (digit_val d) ds = n"
    using str_nat_value[of n] s by simp
  show ?thesis
    by (simp add: s start_digit[OF dig(1)] lex_digits[OF dig(2)] v)
qed

lemma space_not_digit: "is_space c \<Longrightarrow> \<not> is_digit c"
  by (auto simp: is_space_def is_digit_def nl_def)

lemma start_space: "is_space c \<Longrightarrow> start c = Some Idle"
  by (simp add: start_def space_not_digit)

lemma lex_int:
  assumes "is_space c" and "lex Idle cs = Some ts"
  shows "lex Idle (str_int i @ c # cs) =
           Some ((if i < 0 then [Sym ''-'', Num (nat (- i))] else [Num (nat i)]) @ ts)"
proof (cases "i < 0")
  case False
  then show ?thesis
    using assms by (simp add: str_int_def lex_number space_not_digit start_space)
next
  case True
  obtain d ds where s: "str_nat (nat (- i)) = d # ds"
    using str_nat_nonempty[of "nat (- i)"] by (cases "str_nat (nat (- i))") auto
  have dig: "is_digit d" using str_nat_digits[of "nat (- i)"] s by auto
  have m: "start CHR ''-'' = Some (InSym CHR ''-'')" by (simp add: lex_classes)
  have "lex (InSym CHR ''-'') (d # ds @ c # cs) =
          map_option ((#) (Sym ''-'')) (lex (InNum (digit_val d)) (ds @ c # cs))"
    by (simp add: two_char_ops_def start_digit[OF dig])
  moreover have "lex (InNum (digit_val d)) (ds @ c # cs) = lex (InNum (nat (- i))) (c # cs)"
    using lex_number[of "nat (- i)" "c # cs"] s by (simp add: start_digit[OF dig])
  ultimately have "lex (InSym CHR ''-'') (str_nat (nat (- i)) @ c # cs) =
          map_option ((#) (Sym ''-'')) (lex (InNum (nat (- i))) (c # cs))"
    by (simp add: s)
  then show ?thesis
    using True assms by (simp add: str_int_def m space_not_digit start_space)
qed

lemma lex_query_text:
  assumes "quote \<notin> set symbol" and "quote \<notin> set timeframe"
  shows "lex Idle (query_text symbol timeframe start_ns end_ns) =
           Some ([Word ''SELECT'', Sym ''*'', Word ''FROM'', Word ''bitstamp_data'', Word ''WHERE'',
                  Word ''symbol'', Sym ''='', Str symbol, Word ''AND'',
                  Word ''timeframe'', Sym ''='', Str timeframe, Word ''AND'',
                  Word ''epoch_open_time'', Sym ''>=''] @
                 (if start_ns < 0 then [Sym ''-'', Num (nat (- start_ns))] else [Num (nat start_ns)]) @
                 [Word ''AND'', Word ''epoch_open_time'', Sym ''<''] @
                 (if end_ns < 0 then [Sym ''-'', Num (nat (- end_ns))] else [Num (nat end_ns)]) @
                 [Word ''ORDER'', Word ''BY'', Word ''epoch_open_time'', Word ''ASC''])"
proof -
  let ?A = "(if start_ns < 0 then [Sym ''-'', Num (nat (- start_ns))] else [Num (nat start_ns)])"
  let ?B = "(if end_ns < 0 then [Sym ''-'', Num (nat (- end_ns))] else [Num (nat end_ns)])"
  let ?t8 = "[Word ''ORDER'', Word ''BY'', Word ''epoch_open_time'', Word ''ASC'']"
  have sp: "is_space nl" by (simp add: is_space_def)
  have t8: "lex Idle (tl query_tail) = Some ?t8"
    by (simp add: query_tail_def lex_classes)
  have qt: "query_tail = nl # tl query_tail" by (simp add: query_tail_def)
  have t7: "lex Idle (str_int end_ns @ query_tail) = Some (?B @ ?t8)"
    using lex_int[OF sp t8, of end_ns] qt by simp
  have t6: "lex Idle (tl query_until @ str_int end_ns @ query_tail) =
              Some ([Word ''AND'', Word ''epoch_open_time'', Sym ''<''] @ ?B @ ?t8)"
    using t7 by (simp add: query_until_def lex_classes)
  have qu: "query_until = nl # tl query_until" by (simp add: query_until_def)
  have t5: "lex Idle (str_int start_ns @ query_until @ str_int end_ns @ query_tail) =
              Some (?A @ [Word ''AND'', Word ''epoch_open_time'', Sym ''<''] @ ?B @ ?t8)"
    using lex_int[OF sp t6, of start_ns] qu by (metis append_Cons)
  have t4: "lex (InStrQuote timeframe)
              (query_from @ str_int start_ns @ query_until @ str_int end_ns @ query_tail) =
              Some ([Str timeframe, Word ''AND'', Word ''epoch_open_time'', Sym ''>=''] @
                    ?A @ [Word ''AND'', Word ''epoch_open_time'', Sym ''<''] @ ?B @ ?t8)"
    using t5 by (simp add: query_from_def lex_classes)
  have t3: "lex (InStr [])
              (timeframe @ quote # query_from @ str_int start_ns @ query_until @ str_int end_ns @
               query_tail) =
              Some ([Str timeframe, Word ''AND'', Word ''epoch_open_time'', Sym ''>=''] @
                    ?A @ [Word ''AND'', Word ''epoch_open_time'', Sym ''<''] @ ?B @ ?t8)"
    using t4 by (simp add: lex_string_body[OF assms(2)])
  have t2: "lex (InStrQuote symbol)
              (query_timeframe @ quote # timeframe @ quote # query_from @ str_int start_ns @
               query_until @ str_int end_ns @ query_tail) =
              Some ([Str symbol, Word ''AND'', Word ''timeframe'', Sym ''='',
                     Str timeframe, Word ''AND'', Word ''epoch_open_time'', Sym ''>=''] @
                    ?A @ [Word ''AND'', Word ''epoch_open_time'', Sym ''<''] @ ?B @ ?t8)"
    using t3 by (simp add: query_timeframe_def lex_classes)
  have t1: "lex (InStr [])
              (symbol @ quote # query_timeframe @ quote # timeframe @ quote # query_from @
               str_int start_ns @ query_until @ str_int end_ns @ query_tail) =
              Some ([Str symbol, Word ''AND'', Word ''timeframe'', Sym ''='',
                     Str timeframe, Word ''AND'', Word ''epoch_open_time'', Sym ''>=''] @
                    ?A @ [Word ''AND'', Word ''epoch_open_time'', Sym ''<''] @ ?B @ ?t8)"
    using t2 by (simp add: lex_string_body[OF assms(1)])
  show ?thesis
    using t1 by (simp add: query_text_def query_head_def lex_classes)
qed

lemmas parse_defs = parse_select_def parse_where_def parse_order_def parse_atom_def parse_literal_def
  comparison_of_def

lemma parse_query_tokens:
  "parse_select ([Word ''SELECT'', Sym ''*'', Word ''FROM'', Word ''bitstamp_data'', Word ''WHERE'',
                  Word ''symbol'', Sym ''='', Str symbol, Word ''AND'',
                  Word ''timeframe'', Sym ''='', Str timeframe, Word ''AND'',
                  Word ''epoch_open_time'', Sym ''>=''] @
                 (if start_ns < 0 then [Sym ''-'', Num (nat (- start_ns))] else [Num (nat start_ns)]) @
                 [Word ''AND'', Word ''epoch_open_time'', Sym ''<''] @
                 (if end_ns < 0 then [Sym ''-'', Num (nat (- end_ns))] else [Num (nat end_ns)]) @
                 [Word ''ORDER'', Word ''BY'', Word ''epoch_open_time'', Word ''ASC'']) =
     Some \<lparr>from_table = ''bitstamp_data'',
           where_clause = [[(''symbol'', Eq, Text symbol), (''timeframe'', Eq, Text timeframe),
                            (''epoch_open_time'', Ge, Number start_ns),
                            (''epoch_open_time'', Lt, Number end_ns)]],
           order_by = Some (''epoch_open_time'', False)\<rparr>"
  by (cases "start_ns < 0"; cases "end_ns < 0") (simp_all add: parse_defs)

lemma run_query_statement:
  assumes "db ''bitstamp_data'' = Some (labels, table)"
  shows "run_select db \<lparr>from_table = ''bitstamp_data'',
           where_clause = [[(''symbol'', Eq, Text symbol), (''timeframe'', Eq, Text timeframe),
                            (''epoch_open_time'', Ge, Number start_ns),
                            (''epoch_open_time'', Lt, Number end_ns)]],
           order_by = Some (''epoch_open_time'', False)\<rparr> =
         Inr (sort_key row_epoch_open_time
                (filter (\<lambda>r. row_symbol r = symbol \<and> row_timeframe r = timeframe \<and>
                   start_ns \<le> row_epoch_open_time r \<and> row_epoch_open_time r < end_ns) table), labels)"
proof -
  have h: "where_holds [[(''symbol'', Eq, Text symbol), (''timeframe'', Eq, Text timeframe),
                            (''epoch_open_time'', Ge, Number start_ns),
                            (''epoch_open_time'', Lt, Number end_ns)]] =
           (\<lambda>r. row_symbol r = symbol \<and> row_timeframe r = timeframe \<and>
                   start_ns \<le> row_epoch_open_time r \<and> row_epoch_open_time r < end_ns)"
    by (simp add: fun_eq_iff where_holds_def atom_holds_def compare_int_def)
  show ?thesis
    by (simp add: run_select_def assms atom_typed_def h)
qed

lemma data_source_query_text:
  assumes "quote \<notin> set symbol" and "quote \<notin> set timeframe"
    and "db ''bitstamp_data'' = Some (labels, table)"
  shows "data_source db (query_text symbol timeframe start_ns end_ns) =
         Inr (sort_key row_epoch_open_time
                (filter (\<lambda>r. row_symbol r = symbol \<and> row_timeframe r = timeframe \<and>
                   start_ns \<le> row_epoch_open_time r \<and> row_epoch_open_time r < end_ns) table), labels)"
  using run_query_statement[of db labels table symbol timeframe start_ns end_ns, OF assms(3)]
  by (simp only: data_source_def lex_query_text[OF assms(1,2)] parse_query_tokens option.case)

section \<open>The configuration loader\<close>

lemma db_config_world: "snd (db_config ev p w) = w"
  by (simp add: db_config_def Let_def split: sum.splits)

lemma db_config_result: "db_config ev p w = (fst (db_config ev p w), w)"
  using db_config_world[of ev p w] by (metis prod.collapse)

lemma db_config_missing: "\<not> path_exists w p \<Longrightarrow> db_config ev p w = (Inl (FileNotFoundError p), w)"
  by (simp add: db_config_def)

lemma db_config_open_fault:
  "path_exists w p \<Longrightarrow> os_fault ev (OpenRead p) = Some e \<Longrightarrow> db_config ev p w = (Inl e, w)"
  by (simp add: db_config_def open_read_def)

lemma db_config_directory:
  "fs w p = Some Dir \<Longrightarrow> os_fault ev (OpenRead p) = None \<Longrightarrow>
   db_config ev p w = (Inl (OSError ''IsADirectoryError''), w)"
  by (simp add: db_config_def path_exists_def open_read_def)

lemma db_config_not_json:
  "fs w p = Some (File c) \<Longrightarrow> os_fault ev (OpenRead p) = None \<Longrightarrow> \<forall>j. c \<noteq> Json j \<Longrightarrow>
   db_config ev p w = (Inl JSONDecodeError, w)"
  by (cases c) (simp_all add: db_config_def path_exists_def open_read_def json_load_def)

lemma db_config_not_object:
  "fs w p = Some (File (Json j)) \<Longrightarrow> os_fault ev (OpenRead p) = None \<Longrightarrow> \<forall>kvs. j \<noteq> JObj kvs \<Longrightarrow>
   db_config ev p w = (Inl AttributeError, w)"
  by (cases j) (simp_all add: db_config_def path_exists_def open_read_def json_load_def keys_def)

lemma db_config_object:
  assumes "fs w p = Some (File (Json (JObj kvs)))" "os_fault ev (OpenRead p) = None"
  shows "db_config ev p w =
           (if set required_keys \<subseteq> fst ` set kvs then (Inr kvs, w)
            else (Inl (ValueError (filter (\<lambda>k. k \<notin> fst ` set kvs) required_keys)), w))"
  using assms
  by (auto simp: db_config_def path_exists_def open_read_def json_load_def keys_def Let_def
        filter_empty_conv)

lemma example_config_loads:
  assumes "os_fault ev (OpenRead ''config/db_config.json'') = None"
  shows "fst (db_config ev ''config/db_config.json'' example_world) = Inr example_config"
proof -
  have f: "fs example_world ''config/db_config.json'' = Some (File (Json (JObj example_config)))"
    by (simp add: example_world_def)
  show ?thesis
    by (simp add: db_config_object[OF f assms] required_keys_def example_config_def)
qed

text \<open>
  Claim C8, as amended. \<open>db_config\<close> fails with \<open>FileNotFoundError\<close> (ConfigNotFound)
  when the path does not exist. When the path exists, what \<open>open\<close>, \<open>json.load\<close> and
  \<open>.keys()\<close> raise leaves it unchanged: the error of \<open>open\<close> (also for a directory),
  \<open>JSONDecodeError\<close> for a file that is not JSON, \<open>AttributeError\<close> for JSON that is not
  an object. For a file that holds a JSON object it fails with \<open>ValueError\<close>
  (ConfigInvalid), naming the absent keys, exactly when one of host, port, dbname, user,
  password is absent, and returns the object otherwise. In every case the world after
  the call is the world before it.
\<close>

theorem db_config_outcomes:
  "(\<not> path_exists w p \<longrightarrow> fst (db_config ev p w) = Inl (FileNotFoundError p)) \<and>
   (path_exists w p \<and> os_fault ev (OpenRead p) = Some e \<longrightarrow> fst (db_config ev p w) = Inl e) \<and>
   (os_fault ev (OpenRead p) = None \<and> fs w p = Some Dir \<longrightarrow>
      fst (db_config ev p w) = Inl (OSError ''IsADirectoryError'')) \<and>
   (os_fault ev (OpenRead p) = None \<and> fs w p = Some (File c) \<and> (\<forall>j. c \<noteq> Json j) \<longrightarrow>
      fst (db_config ev p w) = Inl JSONDecodeError) \<and>
   (os_fault ev (OpenRead p) = None \<and> fs w p = Some (File (Json j)) \<and> (\<forall>kvs. j \<noteq> JObj kvs) \<longrightarrow>
      fst (db_config ev p w) = Inl AttributeError) \<and>
   (os_fault ev (OpenRead p) = None \<and> fs w p = Some (File (Json (JObj kvs))) \<longrightarrow>
      fst (db_config ev p w) =
        (if set [''host'', ''port'', ''dbname'', ''user'', ''password''] \<subseteq> fst ` set kvs then Inr kvs
         else Inl (ValueError (filter (\<lambda>k. k \<notin> fst ` set kvs)
                     [''host'', ''port'', ''dbname'', ''user'', ''password''])))) \<and>
   snd (db_config ev p w) = w"
proof -
  have a: "\<not> path_exists w p \<longrightarrow> fst (db_config ev p w) = Inl (FileNotFoundError p)"
    by (simp add: db_config_missing)
  have b: "path_exists w p \<and> os_fault ev (OpenRead p) = Some e \<longrightarrow> fst (db_config ev p w) = Inl e"
    by (simp add: db_config_open_fault)
  have c: "os_fault ev (OpenRead p) = None \<and> fs w p = Some Dir \<longrightarrow>
      fst (db_config ev p w) = Inl (OSError ''IsADirectoryError'')"
    by (simp add: db_config_directory)
  have d: "os_fault ev (OpenRead p) = None \<and> fs w p = Some (File c) \<and> (\<forall>j. c \<noteq> Json j) \<longrightarrow>
      fst (db_config ev p w) = Inl JSONDecodeError"
    by (simp add: db_config_not_json)
  have e: "os_fault ev (OpenRead p) = None \<and> fs w p = Some (File (Json j)) \<and> (\<forall>kvs. j \<noteq> JObj kvs) \<longrightarrow>
      fst (db_config ev p w) = Inl AttributeError"
    by (simp add: db_config_not_object)
  have f: "os_fault ev (OpenRead p) = None \<and> fs w p = Some (File (Json (JObj kvs))) \<longrightarrow>
      fst (db_config ev p w) =
        (if set [''host'', ''port'', ''dbname'', ''user'', ''password''] \<subseteq> fst ` set kvs then Inr kvs
         else Inl (ValueError (filter (\<lambda>k. k \<notin> fst ` set kvs)
                     [''host'', ''port'', ''dbname'', ''user'', ''password''])))"
  proof
    assume h: "os_fault ev (OpenRead p) = None \<and> fs w p = Some (File (Json (JObj kvs)))"
    then have f1: "fs w p = Some (File (Json (JObj kvs)))" and f2: "os_fault ev (OpenRead p) = None"
      by simp_all
    show "fst (db_config ev p w) =
        (if set [''host'', ''port'', ''dbname'', ''user'', ''password''] \<subseteq> fst ` set kvs then Inr kvs
         else Inl (ValueError (filter (\<lambda>k. k \<notin> fst ` set kvs)
                     [''host'', ''port'', ''dbname'', ''user'', ''password''])))"
      using db_config_object[OF f1 f2] unfolding required_keys_def by (simp only: fst_conv if_distrib[of fst] split: if_splits)
  qed
  show ?thesis using a b c d e f db_config_world[of ev p w] by blast
qed

theorem db_config_outcomes_witness:
  "fst (db_config example_env ''config/db_config.json'' example_world) = Inr example_config \<and>
   fst (db_config example_env ''config/db_config.json'' example_no_password) = Inl (ValueError [''password'']) \<and>
   fst (db_config example_env ''config/db_config.json'' example_world_array) = Inl AttributeError \<and>
   fst (db_config example_env ''missing.json'' example_world) = Inl (FileNotFoundError ''missing.json'') \<and>
   snd (db_config example_env ''config/db_config.json'' example_world) = example_world"
proof -
  have o: "os_fault example_env (OpenRead ''config/db_config.json'') = None"
    by (simp add: example_env_def)
  have f1: "fs example_world ''config/db_config.json'' = Some (File (Json (JObj example_config)))"
    by (simp add: example_world_def)
  have f2: "fs example_no_password ''config/db_config.json'' =
              Some (File (Json (JObj (butlast example_config))))"
    by (simp add: example_no_password_def)
  have f3: "fs example_world_array ''config/db_config.json'' = Some (File (Json (JArr [])))"
    by (simp add: example_world_array_def)
  have f4: "\<not> path_exists example_world ''missing.json''"
    by (simp add: path_exists_def example_world_def)
  have t1: "fst (db_config example_env ''config/db_config.json'' example_world) = Inr example_config"
    using db_config_outcomes[of example_world "''config/db_config.json''" example_env
        JSONDecodeError Junk JNull example_config] o f1
    by (simp add: example_config_def)
  have t2: "fst (db_config example_env ''config/db_config.json'' example_no_password) =
              Inl (ValueError [''password''])"
    using db_config_outcomes[of example_no_password "''config/db_config.json''" example_env
        JSONDecodeError Junk JNull "butlast example_config"] o f2
    by (simp add: example_config_def)
  have t3: "fst (db_config example_env ''config/db_config.json'' example_world_array) = Inl AttributeError"
    using db_config_outcomes[of example_world_array "''config/db_config.json''" example_env
        JSONDecodeError Junk "JArr []" "[]"] o f3
    by simp
  have t4: "fst (db_config example_env ''missing.json'' example_world) =
              Inl (FileNotFoundError ''missing.json'')"
    using db_config_outcomes[of example_world "''missing.json''" example_env] f4 by simp
  have t5: "snd (db_config example_env ''config/db_config.json'' example_world) = example_world"
    using db_config_outcomes[of example_world "''config/db_config.json''" example_env] by simp
  show ?thesis using t1 t2 t3 t4 t5 by simp
qed

text \<open>
  The claim as stated, that \<open>db_config\<close> returns the connection parameters whenever it
  fails with neither of the two errors, fails for a configuration file that holds a JSON
  array: the path exists, no \<open>ValueError\<close> is raised for the absent keys, and the call
  ends with the \<open>AttributeError\<close> of \<open>params.keys()\<close>.
\<close>

theorem db_config_array_counterexample:
  "path_exists example_world_array ''config/db_config.json'' \<and>
   fst (db_config example_env ''config/db_config.json'' example_world_array) = Inl AttributeError"
  by (simp add: db_config_def path_exists_def open_read_def json_load_def keys_def
        example_world_array_def example_world_def example_env_def)

text \<open>
  Claim C10. Only the presence of the five required keys is tested: a mapping that has
  them is returned whole and unchanged, whatever other entries it holds.
\<close>

theorem db_config_keeps_extra_keys:
  assumes "fs w p = Some (File (Json (JObj kvs)))" and "os_fault ev (OpenRead p) = None"
    and "set required_keys \<subseteq> fst ` set kvs"
  shows "db_config ev p w = (Inr kvs, w)"
  using assms by (simp add: db_config_object)

theorem db_config_keeps_extra_keys_witness:
  "fs example_world_extra ''config/db_config.json'' = Some (File (Json (JObj example_config_extra))) \<and>
   os_fault example_env (OpenRead ''config/db_config.json'') = None \<and>
   set required_keys \<subseteq> fst ` set example_config_extra \<and>
   (''sslmode'', JStr ''require'') \<in> set example_config_extra \<and>
   db_config example_env ''config/db_config.json'' example_world_extra =
     (Inr example_config_extra, example_world_extra)"
proof -
  have f: "fs example_world_extra ''config/db_config.json'' = Some (File (Json (JObj example_config_extra)))"
    by (simp add: example_world_extra_def)
  have o: "os_fault example_env (OpenRead ''config/db_config.json'') = None"
    by (simp add: example_env_def)
  have k: "set required_keys \<subseteq> fst ` set example_config_extra"
    by (simp add: required_keys_def example_config_extra_def example_config_def)
  have x: "(''sslmode'', JStr ''require'') \<in> set example_config_extra"
    by (simp add: example_config_extra_def)
  show ?thesis using f o k x db_config_keeps_extra_keys[OF f o k] by simp
qed

section \<open>Steps of the orchestrator\<close>

lemma fetch_config_error:
  assumes "fst (db_config ev cfg w) = Inl e"
  shows "fetch_and_save_data ev symbol broker timeframe start_ns end_ns data_root cfg debug w =
           (Inr None, logging (LogError ''Failed to load DB config: '' e) w)"
proof -
  have "db_config ev cfg w = (Inl e, w)" using assms db_config_result[of ev cfg w] by simp
  then show ?thesis by (simp add: fetch_and_save_data_def)
qed

lemma fetch_connect_error:
  assumes "fst (db_config ev cfg w) = Inr params" and "pg_connect ev params = Some (OperationalError m)"
  shows "fetch_and_save_data ev symbol broker timeframe start_ns end_ns data_root cfg debug w =
           (Inr None, logging (LogError ''Failed to connect to PostgreSQL: '' (OperationalError m))
                        (db_call (Connect params) w))"
proof -
  have "db_config ev cfg w = (Inr params, w)" using assms(1) db_config_result[of ev cfg w] by simp
  then show ?thesis using assms(2) by (simp add: fetch_and_save_data_def)
qed

lemma fetch_connect_raises:
  assumes "fst (db_config ev cfg w) = Inr params" and "pg_connect ev params = Some e"
    and "\<forall>m. e \<noteq> OperationalError m"
  shows "fetch_and_save_data ev symbol broker timeframe start_ns end_ns data_root cfg debug w =
           (Inl e, db_call (Connect params) w)"
proof -
  have "db_config ev cfg w = (Inr params, w)" using assms(1) db_config_result[of ev cfg w] by simp
  then show ?thesis using assms(2,3) by (cases e) (simp_all add: fetch_and_save_data_def)
qed

lemma fetch_connected:
  assumes "fst (db_config ev cfg w) = Inr params" and "pg_connect ev params = None"
  shows "fetch_and_save_data ev symbol broker timeframe start_ns end_ns data_root cfg debug w =
           (let query = query_text symbol timeframe start_ns end_ns
            in case leave_with_conn (connection_closed ev query)
                 (case query_postgres_db ev query debug (db_call (Connect params) w) of
                    (rows, w3) \<Rightarrow>
                      if rows = [] then
                        (Inr None, logging (LogWarning ''No data returned from the query.'') w3)
                      else
                        (let df = \<lparr>columns = column_names ev query, data = rows\<rparr>;
                             w4 = logging (LogInfo (''Fetched '' @ str_nat (length rows) @
                                    '' rows for '' @ symbol @ ''-'' @ timeframe @ ''.'')) w3
                         in case utcfromtimestamp ev start_ns of
                              Inl e \<Rightarrow> (Inl e, w4)
                            | Inr start_dt \<Rightarrow>
                                (case utcfromtimestamp ev end_ns of
                                   Inl e \<Rightarrow> (Inl e, w4)
                                 | Inr end_dt \<Rightarrow>
                                     (case save_data_to_nested_folders ev df data_root symbol
                                             broker timeframe start_dt end_dt w4 of
                                        (Inl e, w5) \<Rightarrow> (Inl e, w5)
                                      | (Inr p, w5) \<Rightarrow> (Inr (Some df), w5))))) of
                 (Inl e, w6) \<Rightarrow> (Inl e, w6)
               | (Inr df, w6) \<Rightarrow> (Inr df, db_call Close w6))"
proof -
  have "db_config ev cfg w = (Inr params, w)" using assms(1) db_config_result[of ev cfg w] by simp
  then show ?thesis using assms(2) by (simp add: fetch_and_save_data_def)
qed

lemma query_postgres_db_rows:
  "fst (query_postgres_db ev q debug w) = (case pg_execute ev q of Inl e \<Rightarrow> [] | Inr (rows, cols) \<Rightarrow> rows)"
  by (simp add: query_postgres_db_def Let_def split: sum.splits prod.splits)

lemma query_postgres_db_fs: "fs (snd (query_postgres_db ev q debug w)) = fs w"
  by (simp add: query_postgres_db_def Let_def logging_def db_call_def split: sum.splits prod.splits)

lemma fetch_no_rows:
  assumes "fst (db_config ev cfg w) = Inr params" and "pg_connect ev params = None"
    and "fst (query_postgres_db ev (query_text symbol timeframe start_ns end_ns) debug (db_call (Connect params) w)) = []"
  shows "fetch_and_save_data ev symbol broker timeframe start_ns end_ns data_root cfg debug w =
           (if connection_closed ev (query_text symbol timeframe start_ns end_ns)
            then (Inl (InterfaceError ''connection already closed''),
                  db_call Commit (logging (LogWarning ''No data returned from the query.'')
                    (snd (query_postgres_db ev (query_text symbol timeframe start_ns end_ns) debug
                       (db_call (Connect params) w)))))
            else (Inr None,
                  db_call Close (db_call Commit (logging (LogWarning ''No data returned from the query.'')
                    (snd (query_postgres_db ev (query_text symbol timeframe start_ns end_ns) debug
                       (db_call (Connect params) w)))))))"
proof -
  obtain rows w3 where q: "query_postgres_db ev (query_text symbol timeframe start_ns end_ns) debug
      (db_call (Connect params) w) = (rows, w3)"
    by (cases "query_postgres_db ev (query_text symbol timeframe start_ns end_ns) debug
      (db_call (Connect params) w)") auto
  with assms(3) have "rows = []" by simp
  with q show ?thesis by (simp add: fetch_connected[OF assms(1,2)] leave_with_conn_def)
qed

lemma rows_mean_open:
  "pg_execute ev q = Inr r \<Longrightarrow> \<not> connection_closed ev q"
  by (simp add: connection_closed_def)

lemma data_source_keeps_connection:
  "pg_execute ev = data_source db \<Longrightarrow> \<not> connection_closed ev q"
  by (simp add: connection_closed_def data_source_def run_select_def Let_def
        split: sum.splits option.splits prod.splits if_splits)

lemma data_source_empty_interval:
  assumes "quote \<notin> set symbol" and "quote \<notin> set timeframe"
  shows "(case data_source db (query_text symbol timeframe t t) of Inl e \<Rightarrow> [] | Inr (rows, cols) \<Rightarrow> rows) = []"
proof (cases "db ''bitstamp_data''")
  case None
  then show ?thesis
    by (simp only: data_source_def lex_query_text[OF assms] parse_query_tokens option.case)
       (simp add: run_select_def)
next
  case (Some lt)
  obtain labels table where lt: "lt = (labels, table)" by (cases lt) auto
  have e: "filter (\<lambda>r. row_symbol r = symbol \<and> row_timeframe r = timeframe \<and>
                     t \<le> row_epoch_open_time r \<and> row_epoch_open_time r < t) table = []"
    by (auto simp: filter_empty_conv)
  show ?thesis
    using Some lt by (simp add: data_source_query_text[OF assms] e)
qed

lemma fetch_rows_not_none:
  assumes "fst (db_config ev cfg w) = Inr params" and "pg_connect ev params = None"
    and "fst (query_postgres_db ev (query_text symbol timeframe start_ns end_ns) debug (db_call (Connect params) w)) \<noteq> []"
  shows "fst (fetch_and_save_data ev symbol broker timeframe start_ns end_ns data_root cfg debug w) \<noteq> Inr None"
proof -
  obtain rows w3 where q: "query_postgres_db ev (query_text symbol timeframe start_ns end_ns) debug
      (db_call (Connect params) w) = (rows, w3)"
    by (cases "query_postgres_db ev (query_text symbol timeframe start_ns end_ns) debug
      (db_call (Connect params) w)") auto
  with assms(3) have ne: "rows \<noteq> []" by simp
  show ?thesis
    using q ne
    by (simp add: fetch_connected[OF assms(1,2)] leave_with_conn_def Let_def
          split: sum.splits prod.splits)
qed

lemmas query_pieces = query_text_def query_head_def query_timeframe_def query_from_def
  query_until_def query_tail_def str_int_def str_nat.simps digit_char_def

section \<open>The orchestrator\<close>

text \<open>
  Claim C2, as amended. Whatever error \<open>db_config\<close> ends with, \<open>fetch_and_save_data\<close>
  catches it: it logs the error and returns \<open>None\<close> to its caller, raising nothing; this
  happens before any database work (no call on the database client is made) and no file
  is touched.
\<close>

theorem config_error_is_logged_not_raised:
  assumes "fst (db_config ev cfg w) = Inl e"
  shows "fetch_and_save_data ev symbol broker timeframe start_ns end_ns data_root cfg debug w =
           (Inr None, logging (LogError ''Failed to load DB config: '' e) w) \<and>
         db_calls (snd (fetch_and_save_data ev symbol broker timeframe start_ns end_ns data_root cfg debug w)) = db_calls w \<and>
         fs (snd (fetch_and_save_data ev symbol broker timeframe start_ns end_ns data_root cfg debug w)) = fs w"
  by (simp add: fetch_config_error[OF assms] logging_def)

theorem config_error_is_logged_not_raised_witness:
  "fst (db_config example_env ''config/db_config.json'' example_no_password) = Inl (ValueError [''password'']) \<and>
   fetch_and_save_data example_env ''BTCUSD'' ''bitstamp'' ''1m'' 1531553400000000000
       1531554000000000000 ''data'' ''config/db_config.json'' False example_no_password =
     (Inr None, logging (LogError ''Failed to load DB config: '' (ValueError [''password''])) example_no_password) \<and>
   db_calls (snd (fetch_and_save_data example_env ''BTCUSD'' ''bitstamp'' ''1m'' 1531553400000000000
       1531554000000000000 ''data'' ''config/db_config.json'' False example_no_password)) = []"
proof -
  have c: "fst (db_config example_env ''config/db_config.json'' example_no_password) = Inl (ValueError [''password''])"
    by (simp add: db_config_def path_exists_def open_read_def json_load_def keys_def Let_def
          required_keys_def example_no_password_def example_env_def example_world_def example_config_def)
  show ?thesis
    using c config_error_is_logged_not_raised[OF c, of "''BTCUSD''" "''bitstamp''" "''1m''"
        1531553400000000000 1531554000000000000 "''data''" False]
    by (simp add: example_no_password_def example_world_def logging_def)
qed

text \<open>
  The claim as stated, that the configuration error leaves \<open>fetch_and_save_data\<close> as an
  exception, fails where the configuration file is missing: the call returns \<open>None\<close>.
\<close>

theorem config_error_propagates_counterexample:
  "fst (db_config example_env ''missing.json'' example_world) = Inl (FileNotFoundError ''missing.json'') \<and>
   fst (fetch_and_save_data example_env ''BTCUSD'' ''bitstamp'' ''1m'' 1531553400000000000
          1531554000000000000 ''data'' ''missing.json'' False example_world) = Inr None"
proof -
  have c: "fst (db_config example_env ''missing.json'' example_world) = Inl (FileNotFoundError ''missing.json'')"
    by (simp add: db_config_def path_exists_def example_world_def)
  show ?thesis using c by (simp add: fetch_config_error[OF c])
qed

text \<open>
  Claim C4, as amended. When \<open>psycopg2.connect\<close> fails with the client's
  \<open>OperationalError\<close>, \<open>fetch_and_save_data\<close> logs the error and returns \<open>None\<close> without
  raising. Any other exception of \<open>psycopg2.connect\<close> is not caught: it leaves
  \<open>fetch_and_save_data\<close> as it is, and nothing is logged. In both cases the only database
  call is the connection attempt and the file system is as before.
\<close>

theorem connection_failure_outcomes:
  assumes "fst (db_config ev cfg w) = Inr params" and "pg_connect ev params = Some e"
  shows "((\<exists>m. e = OperationalError m) \<longrightarrow>
            fetch_and_save_data ev symbol broker timeframe start_ns end_ns data_root cfg debug w =
              (Inr None, logging (LogError ''Failed to connect to PostgreSQL: '' e)
                           (db_call (Connect params) w))) \<and>
         ((\<forall>m. e \<noteq> OperationalError m) \<longrightarrow>
            fetch_and_save_data ev symbol broker timeframe start_ns end_ns data_root cfg debug w =
              (Inl e, db_call (Connect params) w)) \<and>
         fs (snd (fetch_and_save_data ev symbol broker timeframe start_ns end_ns data_root cfg debug w)) = fs w"
proof (cases "\<exists>m. e = OperationalError m")
  case True
  then obtain m where m: "e = OperationalError m" by auto
  show ?thesis
    using fetch_connect_error[OF assms(1) assms(2)[unfolded m]] m
    by (simp add: logging_def db_call_def)
next
  case False
  then have n: "\<forall>m. e \<noteq> OperationalError m" by simp
  show ?thesis
    using fetch_connect_raises[OF assms n] n by (simp add: db_call_def)
qed

theorem connection_failure_outcomes_witness:
  "fst (db_config example_unreachable ''config/db_config.json'' example_world) = Inr example_config \<and>
   pg_connect example_unreachable example_config = Some (OperationalError ''connection refused'') \<and>
   fetch_and_save_data example_unreachable ''BTCUSD'' ''bitstamp'' ''1m'' 1531553400000000000
       1531554000000000000 ''data'' ''config/db_config.json'' False example_world =
     (Inr None, \<lparr>fs = fs example_world,
                 log = [LogError ''Failed to connect to PostgreSQL: '' (OperationalError ''connection refused'')],
                 db_calls = [Connect example_config]\<rparr>)"
proof -
  have c: "fst (db_config example_unreachable ''config/db_config.json'' example_world) = Inr example_config"
    by (rule example_config_loads) (simp add: example_unreachable_def example_env_def)
  have p: "pg_connect example_unreachable example_config = Some (OperationalError ''connection refused'')"
    by (simp add: example_unreachable_def)
  show ?thesis
    using c p connection_failure_outcomes[OF c p, of "''BTCUSD''" "''bitstamp''" "''1m''"
        1531553400000000000 1531554000000000000 "''data''" False]
    by (simp add: logging_def db_call_def example_world_def)
qed

text \<open>
  The claim as stated, for every failure to open the connection, fails where
  \<open>psycopg2.connect\<close> rejects a parameter of the configuration file: the client raises
  \<open>ProgrammingError\<close>, which \<open>except psycopg2.OperationalError\<close> does not catch, and the
  exception reaches the caller.
\<close>

theorem connection_failure_raises_counterexample:
  "fst (db_config example_bad_option ''config/db_config.json'' example_world_unknown) =
     Inr example_config_unknown \<and>
   pg_connect example_bad_option example_config_unknown =
     Some (ProgrammingError ''invalid connection option'') \<and>
   fst (fetch_and_save_data example_bad_option ''BTCUSD'' ''bitstamp'' ''1m'' 1531553400000000000
          1531554000000000000 ''data'' ''config/db_config.json'' False example_world_unknown) =
     Inl (ProgrammingError ''invalid connection option'')"
proof -
  have f: "fs example_world_unknown ''config/db_config.json'' =
             Some (File (Json (JObj example_config_unknown)))"
    by (simp add: example_world_unknown_def)
  have o: "os_fault example_bad_option (OpenRead ''config/db_config.json'') = None"
    by (simp add: example_bad_option_def example_env_def)
  have c: "fst (db_config example_bad_option ''config/db_config.json'' example_world_unknown) =
             Inr example_config_unknown"
    by (simp add: db_config_object[OF f o] required_keys_def example_config_unknown_def
          example_config_def)
  have p: "pg_connect example_bad_option example_config_unknown =
             Some (ProgrammingError ''invalid connection option'')"
    by (simp add: example_bad_option_def example_config_unknown_def example_config_def)
  have n: "\<forall>m. ProgrammingError ''invalid connection option'' \<noteq> OperationalError m" by simp
  show ?thesis using c p by (simp add: fetch_connect_raises[OF c p n])
qed

text \<open>
  Claim C7, as amended. When the gateway yields zero rows and the connection is still
  open, \<open>fetch_and_save_data\<close> logs the warning that no data was returned, leaves the
  file system as it was (no file, no directory) and returns \<open>None\<close>. This is so in
  particular when start equals end, the symbol and the timeframe contain no
  single-quote character, and the statement is run by the data source.
\<close>

theorem no_rows_no_file:
  assumes cfg: "fst (db_config ev cfg w) = Inr params" and conn: "pg_connect ev params = None"
    and zero: "(fst (query_postgres_db ev (query_text symbol timeframe start_ns end_ns) debug
                       (db_call (Connect params) w)) = [] \<and>
                \<not> connection_closed ev (query_text symbol timeframe start_ns end_ns)) \<or>
               (start_ns = end_ns \<and> quote \<notin> set symbol \<and> quote \<notin> set timeframe \<and>
                pg_execute ev = data_source db)"
  shows "fst (fetch_and_save_data ev symbol broker timeframe start_ns end_ns data_root cfg debug w) = Inr None \<and>
         fs (snd (fetch_and_save_data ev symbol broker timeframe start_ns end_ns data_root cfg debug w)) = fs w \<and>
         last (log (snd (fetch_and_save_data ev symbol broker timeframe start_ns end_ns data_root cfg debug w))) =
           LogWarning ''No data returned from the query.''"
proof -
  let ?q = "query_text symbol timeframe start_ns end_ns"
  have both: "fst (query_postgres_db ev ?q debug (db_call (Connect params) w)) = [] \<and>
              \<not> connection_closed ev ?q"
  proof (rule disjE[OF zero])
    assume h: "start_ns = end_ns \<and> quote \<notin> set symbol \<and> quote \<notin> set timeframe \<and>
               pg_execute ev = data_source db"
    then have s: "quote \<notin> set symbol" and t: "quote \<notin> set timeframe"
      and p: "pg_execute ev = data_source db" and eq: "start_ns = end_ns" by simp_all
    have "fst (query_postgres_db ev ?q debug (db_call (Connect params) w)) = []"
      using data_source_empty_interval[OF s t, of db end_ns] eq p
      by (simp add: query_postgres_db_rows)
    then show ?thesis using data_source_keeps_connection[OF p] by simp
  qed
  then have rows: "fst (query_postgres_db ev ?q debug (db_call (Connect params) w)) = []"
    and op: "\<not> connection_closed ev ?q" by simp_all
  show ?thesis
    by (simp add: fetch_no_rows[OF cfg conn rows] op query_postgres_db_fs logging_def db_call_def)
qed

theorem no_rows_no_file_witness:
  "fst (db_config example_env ''config/db_config.json'' example_world) = Inr example_config \<and>
   pg_connect example_env example_config = None \<and>
   quote \<notin> set ''BTCUSD'' \<and> quote \<notin> set ''1m'' \<and>
   pg_execute example_env = data_source example_database \<and>
   fst (fetch_and_save_data example_env ''BTCUSD'' ''bitstamp'' ''1m'' 1577836800000000000
          1577836800000000000 ''data'' ''config/db_config.json'' False example_world) = Inr None \<and>
   fs (snd (fetch_and_save_data example_env ''BTCUSD'' ''bitstamp'' ''1m'' 1577836800000000000
          1577836800000000000 ''data'' ''config/db_config.json'' False example_world)) = fs example_world"
proof -
  have c: "fst (db_config example_env ''config/db_config.json'' example_world) = Inr example_config"
    by (rule example_config_loads) (simp add: example_env_def)
  have p: "pg_connect example_env example_config = None"
    by (simp add: example_env_def)
  have s: "quote \<notin> set ''BTCUSD''" and t: "quote \<notin> set ''1m''" by (simp_all add: quote_def)
  have e: "pg_execute example_env = data_source example_database" by (simp add: example_env_def)
  have z: "(fst (query_postgres_db example_env (query_text ''BTCUSD'' ''1m'' 1577836800000000000 1577836800000000000) False
                      (db_call (Connect example_config) example_world)) = [] \<and>
            \<not> connection_closed example_env (query_text ''BTCUSD'' ''1m'' 1577836800000000000 1577836800000000000)) \<or>
           ((1577836800000000000::int) = 1577836800000000000 \<and> quote \<notin> set ''BTCUSD'' \<and> quote \<notin> set ''1m'' \<and>
            pg_execute example_env = data_source example_database)"
    using s t e by simp
  show ?thesis
    using c p s t e no_rows_no_file[OF c p z, of "''bitstamp''" "''data''"]
    by simp
qed

text \<open>
  The claim as stated fails twice. Where the server drops the connection during the
  query, the gateway yields zero rows, and the commit on leaving \<open>with conn:\<close> raises
  \<open>InterfaceError\<close>: the caller receives an exception, not \<open>None\<close>. And where the symbol
  carries a quote, an interval with start equal to end does not mean zero rows: the
  statement below selects the row of \<open>ETHUSD\<close>, and the call does not return \<open>None\<close>.
\<close>

theorem no_rows_counterexample:
  "fst (query_postgres_db example_dropped (query_text ''BTCUSD'' ''1m'' 1531553400000000000 1531554000000000000)
          False (db_call (Connect example_config) example_world)) = [] \<and>
   fst (fetch_and_save_data example_dropped ''BTCUSD'' ''bitstamp'' ''1m'' 1531553400000000000
          1531554000000000000 ''data'' ''config/db_config.json'' False example_world) =
     Inl (InterfaceError ''connection already closed'') \<and>
   fst (query_postgres_db example_env (query_text injected_symbol ''1m'' 1531553400000000000 1531553400000000000)
          False (db_call (Connect example_config) example_world)) =
     [example_row ''ETHUSD'' 1531553460000000000 ''433.1''] \<and>
   fst (fetch_and_save_data example_env injected_symbol ''bitstamp'' ''1m'' 1531553400000000000
          1531553400000000000 ''data'' ''config/db_config.json'' False example_world) \<noteq> Inr None"
proof -
  have c: "fst (db_config example_dropped ''config/db_config.json'' example_world) = Inr example_config"
    by (rule example_config_loads) (simp add: example_dropped_def example_env_def)
  have p: "pg_connect example_dropped example_config = None"
    by (simp add: example_dropped_def example_env_def)
  have r: "fst (query_postgres_db example_dropped (query_text ''BTCUSD'' ''1m'' 1531553400000000000 1531554000000000000)
          False (db_call (Connect example_config) example_world)) = []"
    by (simp add: query_postgres_db_rows example_dropped_def)
  have k: "connection_closed example_dropped (query_text ''BTCUSD'' ''1m'' 1531553400000000000 1531554000000000000)"
    by (simp add: connection_closed_def example_dropped_def)
  have a: "fst (fetch_and_save_data example_dropped ''BTCUSD'' ''bitstamp'' ''1m'' 1531553400000000000
          1531554000000000000 ''data'' ''config/db_config.json'' False example_world) =
     Inl (InterfaceError ''connection already closed'')"
    using k by (simp add: fetch_no_rows[OF c p r])
  have c': "fst (db_config example_env ''config/db_config.json'' example_world) = Inr example_config"
    by (rule example_config_loads) (simp add: example_env_def)
  have p': "pg_connect example_env example_config = None"
    by (simp add: example_env_def)
  have l: "lex Idle (query_text injected_symbol ''1m'' 1531553400000000000 1531553400000000000) =
      Some [Word ''SELECT'', Sym ''*'', Word ''FROM'', Word ''bitstamp_data'', Word ''WHERE'',
            Word ''symbol'', Sym ''='', Str ''ETHUSD'', Word ''OR'',
            Word ''symbol'', Sym ''<>'', Str ''ETHUSD'', Word ''AND'',
            Word ''timeframe'', Sym ''='', Str ''1m'', Word ''AND'',
            Word ''epoch_open_time'', Sym ''>='', Num 1531553400000000000,
            Word ''AND'', Word ''epoch_open_time'', Sym ''<'', Num 1531553400000000000,
            Word ''ORDER'', Word ''BY'', Word ''epoch_open_time'', Word ''ASC'']"
    by (simp add: query_pieces injected_symbol_def lex_classes)
  have d: "data_source example_database
             (query_text injected_symbol ''1m'' 1531553400000000000 1531553400000000000) =
           Inr ([example_row ''ETHUSD'' 1531553460000000000 ''433.1''], example_labels)"
    by (simp add: data_source_def l parse_defs run_select_def atom_typed_def where_holds_def
          atom_holds_def compare_int_def example_database_def example_table_def example_row_def)
  have r': "fst (query_postgres_db example_env (query_text injected_symbol ''1m'' 1531553400000000000 1531553400000000000)
          False (db_call (Connect example_config) example_world)) =
     [example_row ''ETHUSD'' 1531553460000000000 ''433.1'']"
    by (simp add: query_postgres_db_rows example_env_def d)
  have ne: "fst (query_postgres_db example_env (query_text injected_symbol ''1m'' 1531553400000000000 1531553400000000000)
          False (db_call (Connect example_config) example_world)) \<noteq> []"
    by (simp add: r')
  have b: "fst (fetch_and_save_data example_env injected_symbol ''bitstamp'' ''1m'' 1531553400000000000
          1531553400000000000 ''data'' ''config/db_config.json'' False example_world) \<noteq> Inr None"
    by (rule fetch_rows_not_none[OF c' p' ne])
  show ?thesis using r a r' b by simp
qed

text \<open>
  Claim C3, as amended. When the query runs and returns zero rows,
  \<open>query_postgres_db\<close> hands back an empty list, and \<open>fetch_and_save_data\<close> returns
  \<open>None\<close>: the very value it returns when the connection cannot be opened, so its
  result does not tell the two apart.
\<close>

theorem zero_rows_returns_absent:
  assumes cfg: "fst (db_config ev cfg w) = Inr params" and conn: "pg_connect ev params = None"
    and zero: "pg_execute ev (query_text symbol timeframe start_ns end_ns) = Inr ([], cols)"
    and cfg': "fst (db_config ev' cfg w) = Inr params'"
    and down: "pg_connect ev' params' = Some (OperationalError m)"
  shows "fst (query_postgres_db ev (query_text symbol timeframe start_ns end_ns) debug
                (db_call (Connect params) w)) = [] \<and>
         fst (fetch_and_save_data ev symbol broker timeframe start_ns end_ns data_root cfg debug w) = Inr None \<and>
         fst (fetch_and_save_data ev symbol broker timeframe start_ns end_ns data_root cfg debug w) =
         fst (fetch_and_save_data ev' symbol broker timeframe start_ns end_ns data_root cfg debug w)"
proof -
  have rows: "fst (query_postgres_db ev (query_text symbol timeframe start_ns end_ns) debug
                (db_call (Connect params) w)) = []"
    by (simp add: query_postgres_db_rows zero)
  show ?thesis
    by (simp add: rows fetch_no_rows[OF cfg conn rows] rows_mean_open[OF zero]
          fetch_connect_error[OF cfg' down])
qed

theorem zero_rows_returns_absent_witness:
  "fst (db_config example_empty ''config/db_config.json'' example_world) = Inr example_config \<and>
   pg_connect example_empty example_config = None \<and>
   pg_execute example_empty (query_text ''BTCUSD'' ''1m'' 1531553400000000000 1531554000000000000) = Inr ([], example_labels) \<and>
   fst (db_config example_unreachable ''config/db_config.json'' example_world) = Inr example_config \<and>
   pg_connect example_unreachable example_config = Some (OperationalError ''connection refused'') \<and>
   fst (fetch_and_save_data example_empty ''BTCUSD'' ''bitstamp'' ''1m'' 1531553400000000000
          1531554000000000000 ''data'' ''config/db_config.json'' False example_world) = Inr None \<and>
   fst (fetch_and_save_data example_unreachable ''BTCUSD'' ''bitstamp'' ''1m'' 1531553400000000000
          1531554000000000000 ''data'' ''config/db_config.json'' False example_world) = Inr None"
proof -
  have c: "fst (db_config example_empty ''config/db_config.json'' example_world) = Inr example_config"
    by (rule example_config_loads) (simp add: example_empty_def example_env_def)
  have p: "pg_connect example_empty example_config = None"
    by (simp add: example_empty_def example_env_def)
  have z: "pg_execute example_empty (query_text ''BTCUSD'' ''1m'' 1531553400000000000 1531554000000000000) = Inr ([], example_labels)"
    by (simp add: example_empty_def)
  have c': "fst (db_config example_unreachable ''config/db_config.json'' example_world) = Inr example_config"
    by (rule example_config_loads) (simp add: example_unreachable_def example_env_def)
  have d: "pg_connect example_unreachable example_config = Some (OperationalError ''connection refused'')"
    by (simp add: example_unreachable_def)
  show ?thesis
    using c p z c' d zero_rows_returns_absent[OF c p z c' d, of False "''bitstamp''" "''data''"]
    by metis
qed

text \<open>
  The claim as stated, that the caller receives an empty table, fails where the query
  returns no row: the caller receives \<open>None\<close>.
\<close>

theorem empty_table_counterexample:
  "pg_execute example_empty (query_text ''BTCUSD'' ''1m'' 1531553400000000000 1531554000000000000) = Inr ([], example_labels) \<and>
   fst (fetch_and_save_data example_empty ''BTCUSD'' ''bitstamp'' ''1m'' 1531553400000000000
          1531554000000000000 ''data'' ''config/db_config.json'' False example_world) \<noteq>
     Inr (Some \<lparr>columns = example_labels, data = []\<rparr>) \<and>
   fst (fetch_and_save_data example_empty ''BTCUSD'' ''bitstamp'' ''1m'' 1531553400000000000
          1531554000000000000 ''data'' ''config/db_config.json'' False example_world) = Inr None"
proof -
  have c: "fst (db_config example_empty ''config/db_config.json'' example_world) = Inr example_config"
    by (rule example_config_loads) (simp add: example_empty_def example_env_def)
  have p: "pg_connect example_empty example_config = None"
    by (simp add: example_empty_def example_env_def)
  have z: "pg_execute example_empty (query_text ''BTCUSD'' ''1m'' 1531553400000000000 1531554000000000000) = Inr ([], example_labels)"
    by (simp add: example_empty_def)
  have rows: "fst (query_postgres_db example_empty (query_text ''BTCUSD'' ''1m'' 1531553400000000000 1531554000000000000) False
                (db_call (Connect example_config) example_world)) = []"
    by (simp add: query_postgres_db_rows z)
  show ?thesis
    using z by (simp add: fetch_no_rows[OF c p rows] rows_mean_open[OF z])
qed

section \<open>The query\<close>

text \<open>
  Claim C1, as amended. For a symbol and a timeframe that contain no single-quote
  character, and any two timestamps, the statement \<open>fetch_and_save_data\<close> writes, read
  as SQL and run against a database that has the table \<open>bitstamp_data\<close>, selects from
  that table exactly the rows whose symbol and timeframe equal the given ones and whose
  \<open>epoch_open_time\<close> lies in the half-open interval from start to end, in ascending
  order of \<open>epoch_open_time\<close>.
\<close>

theorem query_selects_half_open_interval:
  assumes "quote \<notin> set symbol" and "quote \<notin> set timeframe"
    and "db ''bitstamp_data'' = Some (labels, table)"
  shows "\<exists>rows. data_source db (query_text symbol timeframe start_ns end_ns) = Inr (rows, labels) \<and>
           mset rows = filter_mset (\<lambda>r. row_symbol r = symbol \<and> row_timeframe r = timeframe \<and>
                          start_ns \<le> row_epoch_open_time r \<and> row_epoch_open_time r < end_ns) (mset table) \<and>
           sorted (map row_epoch_open_time rows)"
  by (simp add: data_source_query_text[where db=db, OF assms])

lemma example_selection:
  "data_source example_database
       (query_text ''BTCUSD'' ''1m'' 1531553400000000000 1531554000000000000) =
     Inr ([example_row ''BTCUSD'' 1531553400000000000 ''6230.0'',
           example_row ''BTCUSD'' 1531553460000000000 ''6230.9'',
           example_row ''BTCUSD'' 1531553520000000000 ''6231.5''], example_labels)"
proof -
  have a: "quote \<notin> set ''BTCUSD''" and b: "quote \<notin> set ''1m''" by (simp_all add: quote_def)
  have t: "example_database ''bitstamp_data'' = Some (example_labels, example_table)"
    by (simp add: example_database_def)
  show ?thesis
    by (simp add: data_source_query_text[where db=example_database, OF a b t] example_table_def example_row_def)
qed

theorem query_selects_half_open_interval_witness:
  "quote \<notin> set ''BTCUSD'' \<and> quote \<notin> set ''1m'' \<and>
   example_database ''bitstamp_data'' = Some (example_labels, example_table) \<and>
   data_source example_database
       (query_text ''BTCUSD'' ''1m'' 1531553400000000000 1531554000000000000) =
     Inr ([example_row ''BTCUSD'' 1531553400000000000 ''6230.0'',
           example_row ''BTCUSD'' 1531553460000000000 ''6230.9'',
           example_row ''BTCUSD'' 1531553520000000000 ''6231.5''], example_labels) \<and>
   (\<exists>rows. data_source example_database
       (query_text ''BTCUSD'' ''1m'' 1531553400000000000 1531554000000000000) = Inr (rows, example_labels) \<and>
       sorted (map row_epoch_open_time rows))"
proof -
  have a: "quote \<notin> set ''BTCUSD''" and b: "quote \<notin> set ''1m''" by (simp_all add: quote_def)
  have t: "example_database ''bitstamp_data'' = Some (example_labels, example_table)"
    by (simp add: example_database_def)
  from query_selects_half_open_interval[of "''BTCUSD''" "''1m''" example_database example_labels
      example_table 1531553400000000000 1531554000000000000, OF a b t]
  show ?thesis using a b t example_selection by auto
qed

text \<open>
  The claim as stated, for every symbol, fails for a symbol with a doubled quote: the
  literal it is interpolated into denotes another text, and the statement selects a row
  whose symbol is not the one given, where no row of the table has the given symbol.
\<close>

theorem query_selects_counterexample:
  "data_source quoted_database (query_text quoted_symbol ''1m'' 10 20) =
     Inr ([example_row (''BTC'' @ [quote] @ ''USD'') 15 ''1.0''], example_labels) \<and>
   row_symbol (example_row (''BTC'' @ [quote] @ ''USD'') 15 ''1.0'') \<noteq> quoted_symbol \<and>
   filter (\<lambda>r. row_symbol r = quoted_symbol \<and> row_timeframe r = ''1m'' \<and>
                10 \<le> row_epoch_open_time r \<and> row_epoch_open_time r < 20) quoted_table = []"
proof -
  have l: "lex Idle (query_text quoted_symbol ''1m'' 10 20) =
      Some [Word ''SELECT'', Sym ''*'', Word ''FROM'', Word ''bitstamp_data'', Word ''WHERE'',
            Word ''symbol'', Sym ''='', Str (''BTC'' @ [quote] @ ''USD''), Word ''AND'',
            Word ''timeframe'', Sym ''='', Str ''1m'', Word ''AND'',
            Word ''epoch_open_time'', Sym ''>='', Num 10,
            Word ''AND'', Word ''epoch_open_time'', Sym ''<'', Num 20,
            Word ''ORDER'', Word ''BY'', Word ''epoch_open_time'', Word ''ASC'']"
    by (simp add: query_pieces quoted_symbol_def lex_classes)
  have d: "data_source quoted_database (query_text quoted_symbol ''1m'' 10 20) =
     Inr ([example_row (''BTC'' @ [quote] @ ''USD'') 15 ''1.0''], example_labels)"
    by (simp add: data_source_def l parse_defs run_select_def atom_typed_def where_holds_def
          atom_holds_def compare_int_def quoted_database_def quoted_table_def example_row_def)
  have n: "row_symbol (example_row (''BTC'' @ [quote] @ ''USD'') 15 ''1.0'') \<noteq> quoted_symbol"
    by (simp add: example_row_def quoted_symbol_def)
  have f: "filter (\<lambda>r. row_symbol r = quoted_symbol \<and> row_timeframe r = ''1m'' \<and>
                10 \<le> row_epoch_open_time r \<and> row_epoch_open_time r < 20) quoted_table = []"
    by (simp add: quoted_table_def example_row_def quoted_symbol_def)
  show ?thesis using d n f by simp
qed

section \<open>Text of timestamps and paths\<close>














lemma is_digit_not_sep: "is_digit c \<Longrightarrow> c \<noteq> sep"
  by (auto simp: is_digit_def sep_def)

lemma file_name_head: "file_name start_dt end_dt \<noteq> [] \<and> hd (file_name start_dt end_dt) \<noteq> sep"
proof -
  let ?y = "str_nat (year start_dt)"
  have ne: "?y \<noteq> []" by (rule str_nat_nonempty)
  have "hd ?y \<in> set ?y" using ne by simp
  then have "is_digit (hd ?y)" using str_nat_digits by blast
  then have h: "hd ?y \<noteq> sep" by (rule is_digit_not_sep)
  show ?thesis using h ne by (simp add: file_name_def strftime_def hd_append)
qed





lemma example_folder: "folder_path ''data'' ''BTCUSD'' ''bitstamp'' ''1m'' = ''data/BTCUSD/bitstamp/1m''"
  by (simp add: folder_path_def os_path_join_def join2_def sep_def)

lemma example_stamps:
  "strftime example_start = ''2018-07-14_07-30-00''" "strftime example_end = ''2018-07-14_07-40-00''"
  by (simp_all add: strftime_def zfill_def str_nat.simps digit_char_def example_start_def example_end_def)

lemma example_file:
  "file_path ''data'' ''BTCUSD'' ''bitstamp'' ''1m'' example_start example_end =
     ''data/BTCUSD/bitstamp/1m/2018-07-14_07-30-00_2018-07-14_07-40-00.pkl''"
  by (simp add: file_path_def example_folder file_name_def example_stamps os_path_join_def join2_def sep_def)

lemma example_prefixes:
  "path_prefixes ''data/BTCUSD/bitstamp/1m'' =
     [''data'', ''data/BTCUSD'', ''data/BTCUSD/bitstamp'', ''data/BTCUSD/bitstamp/1m'']"
  by code_simp

lemma example_no_file:
  "\<not> list_ex (\<lambda>q. is_file (fs example_world q)) (path_prefixes ''data/BTCUSD/bitstamp/1m'')"
  by (simp add: example_prefixes is_file_def example_world_def)


section \<open>The archive path\<close>




section \<open>Steps of the save\<close>

lemma path_prefixes_length: "q \<in> set (path_prefixes p) \<Longrightarrow> length q \<le> length p"
  by (auto simp: path_prefixes_def)

lemma file_path_longer:
  "length (folder_path data_root symbol broker timeframe) <
   length (file_path data_root symbol broker timeframe start_dt end_dt)"
  using file_name_head[of start_dt end_dt]
  by (auto simp: file_path_def os_path_join_def join2_def)

lemma file_path_not_prefix:
  "file_path data_root symbol broker timeframe start_dt end_dt \<notin>
     set (path_prefixes (folder_path data_root symbol broker timeframe))"
proof
  assume "file_path data_root symbol broker timeframe start_dt end_dt \<in>
     set (path_prefixes (folder_path data_root symbol broker timeframe))"
  then have "length (file_path data_root symbol broker timeframe start_dt end_dt) \<le>
     length (folder_path data_root symbol broker timeframe)" by (rule path_prefixes_length)
  then show False using file_path_longer[of data_root symbol broker timeframe start_dt end_dt] by simp
qed

lemma save_makedirs_error:
  "makedirs ev (folder_path data_root symbol broker timeframe) w = Inl (e, w1) \<Longrightarrow>
   save_data_to_nested_folders ev df data_root symbol broker timeframe start_dt end_dt w = (Inl e, w1)"
  by (simp add: save_data_to_nested_folders_def)

lemma save_open_error:
  "makedirs ev (folder_path data_root symbol broker timeframe) w = Inr w1 \<Longrightarrow>
   open_write ev (file_path data_root symbol broker timeframe start_dt end_dt) w1 = Inl e \<Longrightarrow>
   save_data_to_nested_folders ev df data_root symbol broker timeframe start_dt end_dt w = (Inl e, w1)"
  by (simp add: save_data_to_nested_folders_def)

lemma save_dump_error:
  "makedirs ev (folder_path data_root symbol broker timeframe) w = Inr w1 \<Longrightarrow>
   open_write ev (file_path data_root symbol broker timeframe start_dt end_dt) w1 = Inr w2 \<Longrightarrow>
   pickle_dump ev (file_path data_root symbol broker timeframe start_dt end_dt) df w2 = Inl e \<Longrightarrow>
   save_data_to_nested_folders ev df data_root symbol broker timeframe start_dt end_dt w = (Inl e, w2)"
  by (simp add: save_data_to_nested_folders_def)

lemma save_success:
  assumes m: "os_fault ev (Makedirs (folder_path data_root symbol broker timeframe)) = None"
    and o: "os_fault ev (OpenWrite (file_path data_root symbol broker timeframe start_dt end_dt)) = None"
    and d: "os_fault ev (Dump (file_path data_root symbol broker timeframe start_dt end_dt)) = None"
    and ne: "folder_path data_root symbol broker timeframe \<noteq> []"
    and nf: "\<not> list_ex (\<lambda>q. is_file (fs w q)) (path_prefixes (folder_path data_root symbol broker timeframe))"
    and nd: "fs w (file_path data_root symbol broker timeframe start_dt end_dt) \<noteq> Some Dir"
  shows "\<exists>w'. save_data_to_nested_folders ev df data_root symbol broker timeframe start_dt end_dt w =
                 (Inr (file_path data_root symbol broker timeframe start_dt end_dt), w') \<and>
              (\<forall>q \<in> set (path_prefixes (folder_path data_root symbol broker timeframe)). fs w' q = Some Dir) \<and>
              fs w' (file_path data_root symbol broker timeframe start_dt end_dt) = Some (File (Pickle df)) \<and>
              (\<forall>q. q \<notin> set (path_prefixes (folder_path data_root symbol broker timeframe)) \<longrightarrow>
                   q \<noteq> file_path data_root symbol broker timeframe start_dt end_dt \<longrightarrow> fs w' q = fs w q)"
proof -
  let ?F = "folder_path data_root symbol broker timeframe"
  let ?P = "file_path data_root symbol broker timeframe start_dt end_dt"
  let ?w1 = "w\<lparr>fs := (\<lambda>q. if q \<in> set (path_prefixes ?F) then Some Dir else fs w q)\<rparr>"
  let ?w2 = "?w1\<lparr>fs := (fs ?w1)(?P \<mapsto> File Junk)\<rparr>"
  let ?w3 = "?w2\<lparr>fs := (fs ?w2)(?P \<mapsto> File (Pickle df))\<rparr>"
  have np: "?P \<notin> set (path_prefixes ?F)" by (rule file_path_not_prefix)
  have self: "?F \<in> set (path_prefixes ?F)" by (simp add: path_prefixes_def)
  have nl: "\<not> is_file (fs w ?F)" using nf self by (auto simp: list_ex_iff)
  have s1: "makedirs ev ?F w = Inr ?w1" using m ne nf nl by (simp add: makedirs_def)
  have s2: "open_write ev ?P ?w1 = Inr ?w2" using o nd np by (simp add: open_write_def)
  have s3: "pickle_dump ev ?P df ?w2 = Inr ?w3" using d by (simp add: pickle_dump_def)
  have r: "save_data_to_nested_folders ev df data_root symbol broker timeframe start_dt end_dt w =
             (Inr ?P, logging (LogInfo (''DataFrame saved: '' @ ?P)) ?w3)"
    by (simp only: save_data_to_nested_folders_def s1 s2 s3 Let_def sum.case)
  have a: "\<forall>q \<in> set (path_prefixes ?F). fs (logging (LogInfo (''DataFrame saved: '' @ ?P)) ?w3) q = Some Dir"
  proof
    fix q assume "q \<in> set (path_prefixes ?F)"
    then have "q \<noteq> ?P" using np by auto
    with \<open>q \<in> set (path_prefixes ?F)\<close> show "fs (logging (LogInfo (''DataFrame saved: '' @ ?P)) ?w3) q = Some Dir"
      by (simp add: logging_def)
  qed
  have b: "fs (logging (LogInfo (''DataFrame saved: '' @ ?P)) ?w3) ?P = Some (File (Pickle df))"
    by (simp add: logging_def)
  have c: "\<forall>q. q \<notin> set (path_prefixes ?F) \<longrightarrow> q \<noteq> ?P \<longrightarrow>
             fs (logging (LogInfo (''DataFrame saved: '' @ ?P)) ?w3) q = fs w q"
    by (simp add: logging_def)
  show ?thesis using r a b c by blast
qed

lemma save_fst_fs:
  assumes "fs w = fs w'"
  shows "fst (save_data_to_nested_folders ev df data_root symbol broker timeframe start_dt end_dt w) =
         fst (save_data_to_nested_folders ev df data_root symbol broker timeframe start_dt end_dt w')"
proof -
  obtain f l c where w: "w = \<lparr>fs = f, log = l, db_calls = c\<rparr>" by (cases w)
  obtain l' c' where w': "w' = \<lparr>fs = f, log = l', db_calls = c'\<rparr>"
    using assms w by (cases w') simp
  show ?thesis
    unfolding w w'
    by (simp add: save_data_to_nested_folders_def makedirs_def open_write_def pickle_dump_def
          Let_def split: option.splits prod.splits)
qed

lemma fetch_save_error:
  assumes cfg: "fst (db_config ev cfg w) = Inr params" and conn: "pg_connect ev params = None"
    and rows: "pg_execute ev (query_text symbol timeframe start_ns end_ns) = Inr (rows, cols)"
    and ne: "rows \<noteq> []"
    and s: "utcfromtimestamp ev start_ns = Inr start_dt" and e: "utcfromtimestamp ev end_ns = Inr end_dt"
    and f: "fst (save_data_to_nested_folders ev \<lparr>columns = cols, data = rows\<rparr> data_root symbol broker
                   timeframe start_dt end_dt w) = Inl err"
  shows "fst (fetch_and_save_data ev symbol broker timeframe start_ns end_ns data_root cfg debug w) = Inl err"
proof -
  let ?q = "query_text symbol timeframe start_ns end_ns"
  obtain r3 w3 where q: "query_postgres_db ev ?q debug (db_call (Connect params) w) = (r3, w3)"
    by (cases "query_postgres_db ev ?q debug (db_call (Connect params) w)") auto
  have r3: "r3 = rows"
    using query_postgres_db_rows[of ev ?q debug "db_call (Connect params) w"] rows q by simp
  have f3: "fs w3 = fs w"
    using query_postgres_db_fs[of ev ?q debug "db_call (Connect params) w"] q
    by (simp add: db_call_def)
  let ?w4 = "logging (LogInfo (''Fetched '' @ str_nat (length rows) @ '' rows for '' @ symbol @
                ''-'' @ timeframe @ ''.'')) w3"
  have fs4: "fs ?w4 = fs w" by (simp add: logging_def f3)
  have "fst (save_data_to_nested_folders ev \<lparr>columns = cols, data = rows\<rparr> data_root symbol broker
                   timeframe start_dt end_dt ?w4) = Inl err"
    using save_fst_fs[OF fs4] f by simp
  then obtain w5 where sv: "save_data_to_nested_folders ev \<lparr>columns = cols, data = rows\<rparr> data_root
      symbol broker timeframe start_dt end_dt ?w4 = (Inl err, w5)"
    by (cases "save_data_to_nested_folders ev \<lparr>columns = cols, data = rows\<rparr> data_root
      symbol broker timeframe start_dt end_dt ?w4") auto
  have cn: "column_names ev ?q = cols" by (simp add: column_names_def rows)
  have op: "\<not> connection_closed ev ?q" by (rule rows_mean_open[OF rows])
  show ?thesis
    using sv by (simp add: fetch_connected[OF cfg conn] Let_def q r3 ne cn s e op leave_with_conn_def)
qed

section \<open>Persistence\<close>

text \<open>
  Claim C9. Let \<open>F\<close> be the folder and \<open>P\<close> the file \<open>save_data_to_nested_folders\<close>
  derives. When no system call fails, no path on the way to \<open>F\<close> is a file and \<open>P\<close> is
  not a directory, the call returns \<open>P\<close>; afterwards \<open>F\<close> and every directory on the way
  to it exist, \<open>P\<close> holds the pickled table, whatever it held before, and nothing else
  has changed. When \<open>os.makedirs\<close>, \<open>open\<close> or \<open>pickle.dump\<close> fails, the call ends with
  that error and does nothing further. And \<open>fetch_and_save_data\<close> catches none of these:
  an error of the save leaves it as the same error.
\<close>

theorem save_writes_or_propagates:
  assumes "F = folder_path data_root symbol broker timeframe"
    and "P = file_path data_root symbol broker timeframe start_dt end_dt"
  shows "(os_fault ev (Makedirs F) = None \<and> os_fault ev (OpenWrite P) = None \<and>
          os_fault ev (Dump P) = None \<and> F \<noteq> [] \<and>
          \<not> list_ex (\<lambda>q. is_file (fs w q)) (path_prefixes F) \<and> fs w P \<noteq> Some Dir \<longrightarrow>
          (\<exists>w'. save_data_to_nested_folders ev df data_root symbol broker timeframe start_dt end_dt w =
                   (Inr P, w') \<and>
                (\<forall>q \<in> set (path_prefixes F). fs w' q = Some Dir) \<and>
                fs w' P = Some (File (Pickle df)) \<and>
                (\<forall>q. q \<notin> set (path_prefixes F) \<longrightarrow> q \<noteq> P \<longrightarrow> fs w' q = fs w q))) \<and>
         (makedirs ev F w = Inl (err, w1) \<longrightarrow>
          save_data_to_nested_folders ev df data_root symbol broker timeframe start_dt end_dt w =
            (Inl err, w1)) \<and>
         (makedirs ev F w = Inr w1 \<and> open_write ev P w1 = Inl err \<longrightarrow>
          save_data_to_nested_folders ev df data_root symbol broker timeframe start_dt end_dt w =
            (Inl err, w1)) \<and>
         (makedirs ev F w = Inr w1 \<and> open_write ev P w1 = Inr w2 \<and> pickle_dump ev P df w2 = Inl err \<longrightarrow>
          save_data_to_nested_folders ev df data_root symbol broker timeframe start_dt end_dt w =
            (Inl err, w2)) \<and>
         (fst (db_config ev cfg w) = Inr params \<and> pg_connect ev params = None \<and>
          pg_execute ev (query_text symbol timeframe start_ns end_ns) = Inr (data df, columns df) \<and>
          data df \<noteq> [] \<and> utcfromtimestamp ev start_ns = Inr start_dt \<and>
          utcfromtimestamp ev end_ns = Inr end_dt \<and>
          fst (save_data_to_nested_folders ev \<lparr>columns = columns df, data = data df\<rparr> data_root symbol
                 broker timeframe start_dt end_dt w) = Inl err \<longrightarrow>
          fst (fetch_and_save_data ev symbol broker timeframe start_ns end_ns data_root cfg debug w) =
            Inl err)"
proof -
  have a: "os_fault ev (Makedirs F) = None \<and> os_fault ev (OpenWrite P) = None \<and>
          os_fault ev (Dump P) = None \<and> F \<noteq> [] \<and>
          \<not> list_ex (\<lambda>q. is_file (fs w q)) (path_prefixes F) \<and> fs w P \<noteq> Some Dir \<longrightarrow>
          (\<exists>w'. save_data_to_nested_folders ev df data_root symbol broker timeframe start_dt end_dt w =
                   (Inr P, w') \<and>
                (\<forall>q \<in> set (path_prefixes F). fs w' q = Some Dir) \<and>
                fs w' P = Some (File (Pickle df)) \<and>
                (\<forall>q. q \<notin> set (path_prefixes F) \<longrightarrow> q \<noteq> P \<longrightarrow> fs w' q = fs w q))"
    unfolding assms using save_success[of ev data_root symbol broker timeframe start_dt end_dt w df]
    by blast
  have b: "makedirs ev F w = Inl (err, w1) \<longrightarrow>
          save_data_to_nested_folders ev df data_root symbol broker timeframe start_dt end_dt w =
            (Inl err, w1)"
    unfolding assms by (simp add: save_makedirs_error)
  have c: "makedirs ev F w = Inr w1 \<and> open_write ev P w1 = Inl err \<longrightarrow>
          save_data_to_nested_folders ev df data_root symbol broker timeframe start_dt end_dt w =
            (Inl err, w1)"
    unfolding assms by (simp add: save_open_error)
  have d: "makedirs ev F w = Inr w1 \<and> open_write ev P w1 = Inr w2 \<and> pickle_dump ev P df w2 = Inl err \<longrightarrow>
          save_data_to_nested_folders ev df data_root symbol broker timeframe start_dt end_dt w =
            (Inl err, w2)"
    unfolding assms by (simp add: save_dump_error)
  have e: "fst (db_config ev cfg w) = Inr params \<and> pg_connect ev params = None \<and>
          pg_execute ev (query_text symbol timeframe start_ns end_ns) = Inr (data df, columns df) \<and>
          data df \<noteq> [] \<and> utcfromtimestamp ev start_ns = Inr start_dt \<and>
          utcfromtimestamp ev end_ns = Inr end_dt \<and>
          fst (save_data_to_nested_folders ev \<lparr>columns = columns df, data = data df\<rparr> data_root symbol
                 broker timeframe start_dt end_dt w) = Inl err \<longrightarrow>
          fst (fetch_and_save_data ev symbol broker timeframe start_ns end_ns data_root cfg debug w) =
            Inl err"
    using fetch_save_error[of ev cfg w params symbol timeframe start_ns end_ns "data df" "columns df"
        start_dt end_dt data_root broker err debug]
    by blast
  show ?thesis by (intro conjI a b c d e)
qed

lemma example_rows:
  "pg_execute example_readonly (query_text ''BTCUSD'' ''1m'' 1531553400000000000 1531554000000000000) =
     Inr (data example_frame, columns example_frame)"
  by (simp add: example_readonly_def example_env_def example_selection example_frame_def)

lemma example_save_denied:
  "fst (save_data_to_nested_folders example_readonly
          \<lparr>columns = columns example_frame, data = data example_frame\<rparr> ''data'' ''BTCUSD''
          ''bitstamp'' ''1m'' example_start example_end example_world) = Inl (OSError ''PermissionError'')"
  using example_no_file
  by (simp add: save_data_to_nested_folders_def example_folder example_file makedirs_def
        open_write_def example_readonly_def example_env_def example_prefixes)

theorem save_writes_or_propagates_witness:
  "(\<exists>w'. save_data_to_nested_folders example_env example_frame ''data'' ''BTCUSD'' ''bitstamp'' ''1m''
            example_start example_end example_world =
            (Inr ''data/BTCUSD/bitstamp/1m/2018-07-14_07-30-00_2018-07-14_07-40-00.pkl'', w') \<and>
          fs w' ''data/BTCUSD'' = Some Dir \<and> fs w' ''data/BTCUSD/bitstamp/1m'' = Some Dir \<and>
          fs w' ''data/BTCUSD/bitstamp/1m/2018-07-14_07-30-00_2018-07-14_07-40-00.pkl'' =
            Some (File (Pickle example_frame))) \<and>
   fst (save_data_to_nested_folders example_readonly
          \<lparr>columns = columns example_frame, data = data example_frame\<rparr> ''data'' ''BTCUSD''
          ''bitstamp'' ''1m'' example_start example_end example_world) = Inl (OSError ''PermissionError'') \<and>
   fst (fetch_and_save_data example_readonly ''BTCUSD'' ''bitstamp'' ''1m'' 1531553400000000000
          1531554000000000000 ''data'' ''config/db_config.json'' False example_world) =
     Inl (OSError ''PermissionError'')"
proof -
  have h: "os_fault example_env (Makedirs ''data/BTCUSD/bitstamp/1m'') = None \<and>
           os_fault example_env (OpenWrite ''data/BTCUSD/bitstamp/1m/2018-07-14_07-30-00_2018-07-14_07-40-00.pkl'') = None \<and>
           os_fault example_env (Dump ''data/BTCUSD/bitstamp/1m/2018-07-14_07-30-00_2018-07-14_07-40-00.pkl'') = None \<and>
           ''data/BTCUSD/bitstamp/1m'' \<noteq> [] \<and>
           \<not> list_ex (\<lambda>q. is_file (fs example_world q)) (path_prefixes ''data/BTCUSD/bitstamp/1m'') \<and>
           fs example_world ''data/BTCUSD/bitstamp/1m/2018-07-14_07-30-00_2018-07-14_07-40-00.pkl'' \<noteq> Some Dir"
    using example_no_file by (simp add: example_env_def example_world_def)
  have cfg: "fst (db_config example_readonly ''config/db_config.json'' example_world) = Inr example_config"
    by (rule example_config_loads) (simp add: example_readonly_def example_env_def)
  have g: "fst (db_config example_readonly ''config/db_config.json'' example_world) = Inr example_config \<and>
           pg_connect example_readonly example_config = None \<and>
           pg_execute example_readonly (query_text ''BTCUSD'' ''1m'' 1531553400000000000 1531554000000000000) =
             Inr (data example_frame, columns example_frame) \<and>
           data example_frame \<noteq> [] \<and>
           utcfromtimestamp example_readonly 1531553400000000000 = Inr example_start \<and>
           utcfromtimestamp example_readonly 1531554000000000000 = Inr example_end"
    by (simp add: cfg example_rows)
       (simp add: example_readonly_def example_env_def example_clock_def example_frame_def)
  note t1 = save_writes_or_propagates[OF refl refl, of example_env "''data''" "''BTCUSD''"
      "''bitstamp''" "''1m''" example_start example_end example_world example_frame,
      unfolded example_folder example_file, THEN conjunct1]
  note t2 = save_writes_or_propagates[OF refl refl, of example_readonly "''data''" "''BTCUSD''"
      "''bitstamp''" "''1m''" example_start example_end example_world example_frame
      "OSError ''PermissionError''" _ _
      "''config/db_config.json''" example_config 1531553400000000000 1531554000000000000 False,
      THEN conjunct2, THEN conjunct2, THEN conjunct2, THEN conjunct2]
  have s: "\<exists>w'. save_data_to_nested_folders example_env example_frame ''data'' ''BTCUSD'' ''bitstamp'' ''1m''
            example_start example_end example_world =
            (Inr ''data/BTCUSD/bitstamp/1m/2018-07-14_07-30-00_2018-07-14_07-40-00.pkl'', w') \<and>
          fs w' ''data/BTCUSD'' = Some Dir \<and> fs w' ''data/BTCUSD/bitstamp/1m'' = Some Dir \<and>
          fs w' ''data/BTCUSD/bitstamp/1m/2018-07-14_07-30-00_2018-07-14_07-40-00.pkl'' =
            Some (File (Pickle example_frame))"
    using t1 h by (auto simp: example_prefixes)
  have f: "fst (fetch_and_save_data example_readonly ''BTCUSD'' ''bitstamp'' ''1m'' 1531553400000000000
          1531554000000000000 ''data'' ''config/db_config.json'' False example_world) =
     Inl (OSError ''PermissionError'')"
    using t2 g example_save_denied by blast
  show ?thesis using s f example_save_denied by blast
qed

end
